theory Spec2Isabelle
  imports Main "HOL-Library.Word"
begin

section \<open>Data model of the game controller (refBox.go)\<close>

text \<open>
  \<^verbatim>\<open>time.Duration\<close> is a signed 64-bit count of nanoseconds: \<open>+=\<close> and \<open>-=\<close> wrap
  around, \<open>x > 0\<close> is the signed comparison.
\<close>

type_synonym Duration = "64 word"

text \<open>
  A \<^verbatim>\<open>time.Time\<close> instant, as the number of nanoseconds since the Unix epoch, so that
  \<^verbatim>\<open>time.Unix(0, 0)\<close> is \<open>0\<close>. \<^verbatim>\<open>t.After(u)\<close> compares instants and \<^verbatim>\<open>t.Sub(u)\<close> is
  the difference, which the time package saturates at the least and the greatest Duration.
\<close>

type_synonym Time = int

definition time_Unix_0_0 :: Time where
  "time_Unix_0_0 = 0"

definition time_After :: "Time \<Rightarrow> Time \<Rightarrow> bool" where
  "time_After t u = (u < t)"

definition time_Sub :: "Time \<Rightarrow> Time \<Rightarrow> Duration" where
  "time_Sub t u =
     (let d = t - u in
      if d < - (2 ^ 63) then word_of_int (- (2 ^ 63))
      else if 2 ^ 63 - 1 < d then word_of_int (2 ^ 63 - 1)
      else word_of_int d)"

text \<open>
  Modelled from the spec: the declaration of the run-mode type \<^verbatim>\<open>GameState\<close> and of its
  constants \<^verbatim>\<open>GameStateRunning\<close> and \<^verbatim>\<open>GameStateTimeout\<close> is not among the sources. The
  spec names the run-modes Halted, Stopped, Running and Timeout "for example"; every other
  run-mode is \<open>GameStateOther\<close>.
\<close>

datatype GameState =
    GameStateHalted
  | GameStateStopped
  | GameStateRunning
  | GameStateTimeout
  | GameStateOther string

text \<open>
  Modelled from the spec: the declaration of \<^verbatim>\<open>Team\<close> (a team identity, the key of the
  \<^verbatim>\<open>TeamState\<close> map) is not among the sources.
\<close>

type_synonym Team = string

text \<open>
  Modelled from the spec: the declarations of \<^verbatim>\<open>TeamInfo\<close> and \<^verbatim>\<open>State\<close> are not among
  the sources; the fields below are the ones refBox.go reads and writes, with the types it
  uses them at. Both are extensible records: every statement about
  \<open>'t TeamInfo_scheme\<close> and \<open>'s State_scheme\<close> holds whatever further fields the
  declarations have.

  The code ranges over \<^verbatim>\<open>r.State.TeamState\<close> handing each value to functions that take a
  \<^verbatim>\<open>*TeamInfo\<close>, and assigns to a field of \<^verbatim>\<open>TeamState[k]\<close>: the map's values are
  pointers. A pointer is \<open>None\<close> (nil) or \<open>Some a\<close>, the address \<open>a\<close> of a TeamInfo object
  in the store \<open>heap\<close> of the world. The map is a list of its entries, in the order the
  \<^verbatim>\<open>range\<close> loop visits them; \<open>map_of\<close> is the lookup.
\<close>

type_synonym addr = nat

record TeamInfo =
  YellowCardTimes :: "Duration list"
  TimeoutTimeLeft :: Duration

record State =
  GameState :: GameState
  GameStateFor :: "Team option"
  StageTimeElapsed :: Duration
  StageTimeLeft :: Duration
  MatchDuration :: Duration
  TeamState :: "(Team \<times> addr option) list"

text \<open>
  An open \<^verbatim>\<open>*os.File\<close>: the name of the file and the offset of the handle. A nil handle
  is \<open>None\<close>.
\<close>

record File =
  fname :: string
  pos :: nat

text \<open>Modelled from the spec: the command descriptor \<^verbatim>\<open>EventCommand\<close> is declared outside
  the sources.\<close>

type_synonym EventCommand = string

text \<open>
  \<^verbatim>\<open>GameController\<close>. \<^verbatim>\<open>State\<close> is a pointer to the State object that \<^verbatim>\<open>NewRefBox\<close>
  allocates for the controller; the object is stored in the controller. \<^verbatim>\<open>Publisher\<close> and
  \<^verbatim>\<open>ApiServer\<close> are the identities of the two sinks. \<^verbatim>\<open>timer\<close>, \<^verbatim>\<open>Config\<close> and
  \<^verbatim>\<open>StageTimes\<close> are not used by the functions below.
\<close>

record 's GameController =
  State :: "'s State_scheme"
  MatchTimeStart :: Time
  StateHistory :: "'s State_scheme list"
  stateHistoryFile :: "File option"
  lastStateFile :: "File option"
  Publisher :: nat
  ApiServer :: nat

text \<open>What the controller does to the outside, in the order it does it.\<close>

datatype 's effect =
    LogPrint string
  | FileTruncate string
  | FileWriteAt string string
  | FileAppend string string
  | FileSync string
  | ApiServerPublishState nat "'s State_scheme"
  | PublisherPublish nat "'s State_scheme" "EventCommand option"

text \<open>
  The faults of the operating system that the code tests for: a read, a truncation or a
  positioned write that fails on an open file.
\<close>

record Faults =
  readFails :: bool
  truncateFails :: bool
  writeAtFails :: bool

text \<open>
  The world: the controllers by identity, the package-level variable \<^verbatim>\<open>RefBox\<close> (the
  identity of the singleton), the store of TeamInfo objects, the contents of the files by
  name, the effects so far, and the faults of the operating system.
\<close>

record ('s, 't) World =
  ctrls :: "nat \<Rightarrow> 's GameController"
  RefBox :: nat
  heap :: "addr \<Rightarrow> 't TeamInfo_scheme"
  files :: "string \<Rightarrow> string"
  trace :: "'s effect list"
  faults :: Faults

datatype error = Fatal string | Panic

definition emit :: "'s effect \<Rightarrow> ('s, 't) World \<Rightarrow> ('s, 't) World" where
  "emit e w = w\<lparr>trace := trace w @ [e]\<rparr>"

definition setCtrl :: "nat \<Rightarrow> 's GameController \<Rightarrow> ('s, 't) World \<Rightarrow> ('s, 't) World" where
  "setCtrl r c w = w\<lparr>ctrls := (ctrls w)(r := c)\<rparr>"

section \<open>Tick\<close>

text \<open>\<^verbatim>\<open>reduceYellowCardTimes\<close>: the loop over the indices of the slice.\<close>

fun reduceTimes :: "Duration list \<Rightarrow> Duration \<Rightarrow> Duration list" where
  "reduceTimes [] delta = []"
| "reduceTimes (x # xs) delta = (x - delta) # reduceTimes xs delta"

definition reduceYellowCardTimes :: "'t TeamInfo_scheme \<Rightarrow> Duration \<Rightarrow> 't TeamInfo_scheme" where
  "reduceYellowCardTimes teamState delta =
     teamState\<lparr>YellowCardTimes := reduceTimes (YellowCardTimes teamState) delta\<rparr>"

text \<open>\<^verbatim>\<open>removeElapsedYellowCards\<close>: \<open>b\<close> starts empty and takes each \<open>x > 0\<close> at its end.\<close>

fun retainPositive :: "Duration list \<Rightarrow> Duration list \<Rightarrow> Duration list" where
  "retainPositive b [] = b"
| "retainPositive b (x # xs) = retainPositive (if 0 <s x then b @ [x] else b) xs"

definition removeElapsedYellowCards :: "'t TeamInfo_scheme \<Rightarrow> 't TeamInfo_scheme" where
  "removeElapsedYellowCards teamState =
     teamState\<lparr>YellowCardTimes := retainPositive [] (YellowCardTimes teamState)\<rparr>"

text \<open>
  The loop of \<^verbatim>\<open>updateTimes\<close> over the entries of \<^verbatim>\<open>TeamState\<close>: both functions
  dereference the pointer, so a nil value panics.
\<close>

fun updateTeams ::
  "(Team \<times> addr option) list \<Rightarrow> Duration \<Rightarrow> (addr \<Rightarrow> 't TeamInfo_scheme)
     \<Rightarrow> error + (addr \<Rightarrow> 't TeamInfo_scheme)" where
  "updateTeams [] delta h = Inr h"
| "updateTeams ((t, None) # es) delta h = Inl Panic"
| "updateTeams ((t, Some a) # es) delta h =
     updateTeams es delta
       (h(a := removeElapsedYellowCards (reduceYellowCardTimes (h a) delta)))"

text \<open>\<^verbatim>\<open>m[k]\<close> on a map of pointers: nil when the key is absent.\<close>

definition lookupTeam :: "(Team \<times> addr option) list \<Rightarrow> Team \<Rightarrow> addr option" where
  "lookupTeam m k = (case map_of m k of None \<Rightarrow> None | Some p \<Rightarrow> p)"

definition updateRunning ::
  "nat \<Rightarrow> Duration \<Rightarrow> ('s, 't) World \<Rightarrow> error + ('s, 't) World" where
  "updateRunning r delta w =
     (let c = ctrls w r;
          s1 = (State c)\<lparr>StageTimeElapsed := StageTimeElapsed (State c) + delta\<rparr>;
          s2 = s1\<lparr>StageTimeLeft := StageTimeLeft s1 - delta\<rparr>
      in case updateTeams (TeamState s2) delta (heap w) of
           Inl e \<Rightarrow> Inl e
         | Inr h \<Rightarrow> Inr ((setCtrl r (c\<lparr>State := s2\<rparr>) w)\<lparr>heap := h\<rparr>))"

definition updateTimeout ::
  "nat \<Rightarrow> Duration \<Rightarrow> ('s, 't) World \<Rightarrow> error + ('s, 't) World" where
  "updateTimeout r delta w =
     (case GameStateFor (State (ctrls w r)) of
        None \<Rightarrow> Inr w
      | Some team \<Rightarrow>
          (case lookupTeam (TeamState (State (ctrls w r))) team of
             None \<Rightarrow> Inl Panic
           | Some a \<Rightarrow>
               Inr (w\<lparr>heap := (heap w)
                      (a := (heap w a)\<lparr>TimeoutTimeLeft := TimeoutTimeLeft (heap w a) - delta\<rparr>)\<rparr>)))"

definition updateTimes ::
  "nat \<Rightarrow> Duration \<Rightarrow> ('s, 't) World \<Rightarrow> error + ('s, 't) World" where
  "updateTimes r delta w =
     (case (if GameState (State (ctrls w r)) = GameStateRunning
            then updateRunning r delta w else Inr w) of
        Inl e \<Rightarrow> Inl e
      | Inr w1 \<Rightarrow>
          if GameState (State (ctrls w1 r)) = GameStateTimeout
          then updateTimeout r delta w1 else Inr w1)"

text \<open>
  \<^verbatim>\<open>Tick\<close>. \<open>delta\<close> is what \<^verbatim>\<open>r.timer.Delta()\<close> returns and \<open>now\<close> what \<^verbatim>\<open>time.Now()\<close>
  returns: both are read from the environment.
\<close>

definition Tick ::
  "nat \<Rightarrow> Duration \<Rightarrow> Time \<Rightarrow> ('s, 't) World \<Rightarrow> error + ('s, 't) World" where
  "Tick r delta now w =
     (case updateTimes r delta w of
        Inl e \<Rightarrow> Inl e
      | Inr w1 \<Rightarrow>
          if time_After (MatchTimeStart (ctrls w1 r)) time_Unix_0_0
          then Inr (setCtrl r
                 ((ctrls w1 r)\<lparr>State :=
                    (State (ctrls w1 r))\<lparr>MatchDuration := time_Sub now (MatchTimeStart (ctrls w1 r))\<rparr>\<rparr>)
                 w1)
          else Inr w1)"

section \<open>Files\<close>

datatype read_error = ErrNil | ErrEOF | ErrOther

text \<open>
  \<^verbatim>\<open>f.Read(b)\<close> with a buffer of \<open>bufSize\<close> bytes: the bytes read, the error and the
  handle with its offset advanced. A nil handle and a fault of the operating system give
  an error that is not end-of-file; at the end of the file no byte is read and the error is
  \<^verbatim>\<open>io.EOF\<close>.
\<close>

definition file_Read ::
  "File option \<Rightarrow> nat \<Rightarrow> ('s, 't) World \<Rightarrow> string \<times> read_error \<times> File option" where
  "file_Read fo bufSize w =
     (case fo of
        None \<Rightarrow> ([], ErrOther, None)
      | Some f \<Rightarrow>
          if readFails (faults w) then ([], ErrOther, Some f)
          else (let b = take bufSize (drop (pos f) (files w (fname f)))
                in if b = [] \<and> 0 < bufSize then ([], ErrEOF, Some f)
                   else (b, ErrNil, Some (f\<lparr>pos := pos f + length b\<rparr>))))"

text \<open>\<^verbatim>\<open>f.Truncate(0)\<close>: \<open>None\<close> when it returns an error.\<close>

definition file_Truncate0 :: "File option \<Rightarrow> ('s, 't) World \<Rightarrow> ('s, 't) World option" where
  "file_Truncate0 fo w =
     (case fo of
        None \<Rightarrow> None
      | Some f \<Rightarrow>
          if truncateFails (faults w) then None
          else Some (emit (FileTruncate (fname f)) (w\<lparr>files := (files w)(fname f := [])\<rparr>)))"

text \<open>\<^verbatim>\<open>f.WriteAt(b, 0)\<close>: the bytes replace the start of the file; \<open>None\<close> on an error.\<close>

definition file_WriteAt0 ::
  "File option \<Rightarrow> string \<Rightarrow> ('s, 't) World \<Rightarrow> ('s, 't) World option" where
  "file_WriteAt0 fo b w =
     (case fo of
        None \<Rightarrow> None
      | Some f \<Rightarrow>
          if writeAtFails (faults w) then None
          else Some (emit (FileWriteAt (fname f) b)
                 (w\<lparr>files := (files w)(fname f := b @ drop (length b) (files w (fname f)))\<rparr>)))"

text \<open>
  \<^verbatim>\<open>f.Write(b)\<close> and \<^verbatim>\<open>f.WriteString(s)\<close> on a file opened with \<^verbatim>\<open>O_APPEND\<close>; the code
  drops the result, so a nil handle writes nothing and goes on. The same holds for
  \<^verbatim>\<open>f.Sync()\<close>. A fault of the operating system in these calls, which the code cannot
  see, is left out.
\<close>

definition file_Append :: "File option \<Rightarrow> string \<Rightarrow> ('s, 't) World \<Rightarrow> ('s, 't) World" where
  "file_Append fo b w =
     (case fo of
        None \<Rightarrow> w
      | Some f \<Rightarrow>
          emit (FileAppend (fname f) b) (w\<lparr>files := (files w)(fname f := files w (fname f) @ b)\<rparr>))"

definition file_Sync :: "File option \<Rightarrow> ('s, 't) World \<Rightarrow> ('s, 't) World" where
  "file_Sync fo w = (case fo of None \<Rightarrow> w | Some f \<Rightarrow> emit (FileSync (fname f)) w)"

section \<open>Persistence, publishing, events, undo\<close>

text \<open>
  The functions of \<^verbatim>\<open>encoding/json\<close> on a State, a library outside the sources, are
  parameters. An encoder reads the State and, through its pointers, the store; \<open>None\<close> is
  an error. \<^verbatim>\<open>json.Unmarshal(data, statePtr)\<close> decodes into an existing State and may
  allocate or change TeamInfo objects.
\<close>

record ('s, 't) Codec =
  json_MarshalIndent :: "(addr \<Rightarrow> 't TeamInfo_scheme) \<Rightarrow> 's State_scheme \<Rightarrow> string option"
  json_Marshal :: "(addr \<Rightarrow> 't TeamInfo_scheme) \<Rightarrow> 's State_scheme \<Rightarrow> string option"
  json_Unmarshal ::
    "string \<Rightarrow> (addr \<Rightarrow> 't TeamInfo_scheme) \<Rightarrow> 's State_scheme
       \<Rightarrow> ((addr \<Rightarrow> 't TeamInfo_scheme) \<times> 's State_scheme) option"

definition bufSize :: nat where
  "bufSize = 10000"

definition readLastState ::
  "('s, 't) Codec \<Rightarrow> nat \<Rightarrow> ('s, 't) World \<Rightarrow> error + ('s, 't) World" where
  "readLastState cd r w =
     (case file_Read (lastStateFile (ctrls w r)) bufSize w of
        (b, err, f) \<Rightarrow>
          (let n = length b;
               w1 = setCtrl r ((ctrls w r)\<lparr>lastStateFile := f\<rparr>) w
           in if err = ErrOther then Inl (Fatal ''Could not read from last state file'')
              else if n = bufSize then Inl (Fatal ''Buffer size too small'')
              else if 0 < n then
                (case json_Unmarshal cd b (heap w1) (State (ctrls w1 (RefBox w1))) of
                   None \<Rightarrow> Inl (Fatal ''Could not read last state'')
                 | Some (h, s) \<Rightarrow>
                     Inr ((setCtrl (RefBox w1) ((ctrls w1 (RefBox w1))\<lparr>State := s\<rparr>) w1)
                            \<lparr>heap := h\<rparr>))
              else Inr w1))"

definition SaveLatestState ::
  "('s, 't) Codec \<Rightarrow> nat \<Rightarrow> ('s, 't) World \<Rightarrow> error + ('s, 't) World" where
  "SaveLatestState cd r w =
     (case json_MarshalIndent cd (heap w) (State (ctrls w r)) of
        None \<Rightarrow> Inr (emit (LogPrint ''Can not marshal state'') w)
      | Some jsonState \<Rightarrow>
          (case file_Truncate0 (lastStateFile (ctrls w r)) w of
             None \<Rightarrow> Inl (Fatal ''Can not truncate last state file'')
           | Some w1 \<Rightarrow>
               Inr (file_Sync (lastStateFile (ctrls w r))
                 (case file_WriteAt0 (lastStateFile (ctrls w r)) jsonState w1 of
                    None \<Rightarrow> emit (LogPrint ''Could not write last state'') w1
                  | Some w2 \<Rightarrow> w2))))"

definition SaveStateHistory :: "('s, 't) Codec \<Rightarrow> nat \<Rightarrow> ('s, 't) World \<Rightarrow> ('s, 't) World" where
  "SaveStateHistory cd r w =
     (let c = ctrls w r;
          w1 = setCtrl r (c\<lparr>StateHistory := StateHistory c @ [State c]\<rparr>) w
      in case json_Marshal cd (heap w1) (State (ctrls w1 r)) of
           None \<Rightarrow> emit (LogPrint ''Can not marshal state'') w1
         | Some jsonState \<Rightarrow>
             file_Sync (stateHistoryFile (ctrls w1 r))
               (file_Append (stateHistoryFile (ctrls w1 r)) [CHR 0x0A]
                 (file_Append (stateHistoryFile (ctrls w1 r)) jsonState w1)))"

definition SaveState :: "('s, 't) Codec \<Rightarrow> nat \<Rightarrow> ('s, 't) World \<Rightarrow> error + ('s, 't) World" where
  "SaveState cd r w =
     (case SaveLatestState cd r w of
        Inl e \<Rightarrow> Inl e
      | Inr w1 \<Rightarrow> Inr (SaveStateHistory cd r w1))"

text \<open>
  \<^verbatim>\<open>Publish\<close>: the state saved and sent is that of the controller the package-level
  \<^verbatim>\<open>RefBox\<close> names, the ApiServer is the receiver's.
\<close>

definition Publish ::
  "('s, 't) Codec \<Rightarrow> nat \<Rightarrow> EventCommand option \<Rightarrow> ('s, 't) World \<Rightarrow> error + ('s, 't) World" where
  "Publish cd r command w =
     (case (if command \<noteq> None then SaveState cd (RefBox w) w else Inr w) of
        Inl e \<Rightarrow> Inl e
      | Inr w1 \<Rightarrow>
          Inr (emit (PublisherPublish (Publisher (ctrls w1 (RefBox w1)))
                       (State (ctrls w1 (RefBox w1))) command)
                (emit (ApiServerPublishState (ApiServer (ctrls w1 r))
                         (State (ctrls w1 (RefBox w1)))) w1)))"

text \<open>
  Modelled from the spec: \<^verbatim>\<open>Event\<close> is declared outside the sources; the code reads its
  field \<^verbatim>\<open>Command\<close>, a pointer to an EventCommand. \<^verbatim>\<open>processEvent\<close>, the rules engine, is
  outside the sources too and is the parameter \<open>pe\<close>: it is given the event and the world
  and returns the event as it leaves it, its error (\<open>None\<close> is nil) and the world as it
  leaves it.
\<close>

record Event =
  Command :: "EventCommand option"

definition OnNewEvent ::
  "('e Event_scheme \<Rightarrow> ('s, 't) World \<Rightarrow> 'e Event_scheme \<times> string option \<times> ('s, 't) World)
     \<Rightarrow> ('s, 't) Codec \<Rightarrow> nat \<Rightarrow> 'e Event_scheme \<Rightarrow> ('s, 't) World \<Rightarrow> error + ('s, 't) World" where
  "OnNewEvent pe cd r event w =
     (case pe event w of
        (event1, err, w1) \<Rightarrow>
          (case err of
             Some e \<Rightarrow> Inr (emit (LogPrint (''Could not process event: '' @ e)) w1)
           | None \<Rightarrow> Publish cd r (Command event1) w1))"

text \<open>\<^verbatim>\<open>UndoLastAction\<close>; \<open>lastIndex\<close> is a signed integer.\<close>

definition UndoLastAction :: "nat \<Rightarrow> ('s, 't) World \<Rightarrow> ('s, 't) World" where
  "UndoLastAction r w =
     (let c = ctrls w r;
          lastIndex = int (length (StateHistory c)) - 2
      in if 0 \<le> lastIndex
         then setCtrl r
                (c\<lparr>State := StateHistory c ! nat lastIndex,
                   StateHistory := take (nat lastIndex) (StateHistory c)\<rparr>) w
         else w)"

section \<open>Sample worlds\<close>

text \<open>
  Two teams, each with its own TeamInfo object: Yellow (at address 0) has four yellow cards
  of 1 s, 120 s, 0.5 s and 3 s, Blue (at address 1) has none; both have 300 s of timeout
  left. The stage has 600 s left.
\<close>

definition sampleHeap :: "addr \<Rightarrow> TeamInfo" where
  "sampleHeap a =
     (if a = 0
      then \<lparr>YellowCardTimes = [1000000000, 120000000000, 500000000, 3000000000],
            TimeoutTimeLeft = 300000000000\<rparr>
      else \<lparr>YellowCardTimes = [], TimeoutTimeLeft = 300000000000\<rparr>)"

definition sampleState :: "GameState \<Rightarrow> Team option \<Rightarrow> Duration \<Rightarrow> State" where
  "sampleState g f left =
     \<lparr>GameState = g, GameStateFor = f, StageTimeElapsed = 0, StageTimeLeft = left,
      MatchDuration = 0, TeamState = [(''Yellow'', Some 0), (''Blue'', Some 1)]\<rparr>"

definition sampleCtrl :: "State \<Rightarrow> State list \<Rightarrow> Time \<Rightarrow> unit GameController" where
  "sampleCtrl s hist start =
     \<lparr>State = s, MatchTimeStart = start, StateHistory = hist,
      stateHistoryFile = Some \<lparr>fname = ''logs/state-history.log'', pos = 0\<rparr>,
      lastStateFile = Some \<lparr>fname = ''logs/lastState.json'', pos = 0\<rparr>,
      Publisher = 0, ApiServer = 0\<rparr>"

definition noFaults :: Faults where
  "noFaults = \<lparr>readFails = False, truncateFails = False, writeAtFails = False\<rparr>"

text \<open>Controller 0 is the singleton \<^verbatim>\<open>RefBox\<close>; every other identity is a second controller.\<close>

definition sampleWorld ::
  "unit GameController \<Rightarrow> unit GameController \<Rightarrow> (unit, unit) World" where
  "sampleWorld c0 c1 =
     \<lparr>ctrls = (\<lambda>i. if i = 0 then c0 else c1), RefBox = 0, heap = sampleHeap,
      files = (\<lambda>n. []), trace = [], faults = noFaults\<rparr>"

text \<open>
  A value copy of a State: the State without its map, and for every entry of the map the
  team with the TeamInfo its pointer leads to. Two States are equal field for field,
  whatever the addresses of their TeamInfo objects, when their copies are equal.
\<close>

definition deepState ::
  "(addr \<Rightarrow> 't TeamInfo_scheme) \<Rightarrow> 's State_scheme
     \<Rightarrow> 's State_scheme \<times> (Team \<times> 't TeamInfo_scheme option) list" where
  "deepState h s = (s\<lparr>TeamState := []\<rparr>, map (\<lambda>(t, p). (t, map_option h p)) (TeamState s))"

subsection \<open>A sample codec\<close>

text \<open>
  A codec to run the controller with, in place of \<^verbatim>\<open>encoding/json\<close>. A Duration is
  written as its 64 binary digits, lowest first. A State is written as a letter for its
  run-mode, the three durations of its clock, and for every entry of \<^verbatim>\<open>TeamState\<close>, in
  order, either \<open>-\<close> for a nil pointer or \<open>+\<close>, the timeout left, the number of yellow
  cards and the yellow cards. A run-mode without a letter cannot be encoded. The decoder
  reads these into the target State and into the TeamInfo objects the target's entries
  point to, and leaves every other field of the target as it is; input that is not of
  this form is an error.
\<close>

definition encDuration :: "Duration \<Rightarrow> string" where
  "encDuration x = map (\<lambda>i. if bit x i then CHR ''1'' else CHR ''0'') [0..<64]"

definition decDuration :: "string \<Rightarrow> Duration" where
  "decDuration b = horner_sum of_bool 2 (map (\<lambda>c. c = CHR ''1'') b)"

definition encGameState :: "GameState \<Rightarrow> char option" where
  "encGameState g =
     (case g of
        GameStateHalted \<Rightarrow> Some CHR ''H''
      | GameStateStopped \<Rightarrow> Some CHR ''S''
      | GameStateRunning \<Rightarrow> Some CHR ''R''
      | GameStateTimeout \<Rightarrow> Some CHR ''T''
      | GameStateOther n \<Rightarrow> None)"

definition decGameState :: "char \<Rightarrow> GameState option" where
  "decGameState c =
     (if c = CHR ''H'' then Some GameStateHalted
      else if c = CHR ''S'' then Some GameStateStopped
      else if c = CHR ''R'' then Some GameStateRunning
      else if c = CHR ''T'' then Some GameStateTimeout
      else None)"

definition encTeam :: "(addr \<Rightarrow> 't TeamInfo_scheme) \<Rightarrow> Team \<times> addr option \<Rightarrow> string" where
  "encTeam h e =
     (case snd e of
        None \<Rightarrow> ''-''
      | Some a \<Rightarrow>
          CHR ''+'' # encDuration (TimeoutTimeLeft (h a))
            @ encDuration (word_of_nat (length (YellowCardTimes (h a))))
            @ concat (map encDuration (YellowCardTimes (h a))))"

definition sampleEncode :: "(addr \<Rightarrow> 't TeamInfo_scheme) \<Rightarrow> 's State_scheme \<Rightarrow> string option" where
  "sampleEncode h s =
     (case encGameState (GameState s) of
        None \<Rightarrow> None
      | Some c \<Rightarrow>
          Some (c # encDuration (StageTimeElapsed s) @ encDuration (StageTimeLeft s)
                  @ encDuration (MatchDuration s) @ concat (map (encTeam h) (TeamState s))))"

fun chunks :: "nat \<Rightarrow> string \<Rightarrow> string list" where
  "chunks 0 b = []"
| "chunks (Suc n) b = take 64 b # chunks n (drop 64 b)"

fun decTeams ::
  "(Team \<times> addr option) list \<Rightarrow> string \<Rightarrow> (addr \<Rightarrow> 't TeamInfo_scheme)
     \<Rightarrow> (addr \<Rightarrow> 't TeamInfo_scheme) option" where
  "decTeams [] b h = (if b = [] then Some h else None)"
| "decTeams ((t, p) # es) [] h = None"
| "decTeams ((t, p) # es) (c # b) h =
     (if c = CHR ''-'' then (if p = None then decTeams es b h else None)
      else if c = CHR ''+'' then
        (case p of
           None \<Rightarrow> None
         | Some a \<Rightarrow>
             (let n = unat (decDuration (take 64 (drop 64 b)))
              in if length b < 128 + 64 * n then None
                 else decTeams es (drop (128 + 64 * n) b)
                        (h(a := (h a)\<lparr>YellowCardTimes :=
                                      map decDuration (chunks n (take (64 * n) (drop 128 b))),
                                    TimeoutTimeLeft := decDuration (take 64 b)\<rparr>))))
      else None)"

definition sampleDecode ::
  "string \<Rightarrow> (addr \<Rightarrow> 't TeamInfo_scheme) \<Rightarrow> 's State_scheme
     \<Rightarrow> ((addr \<Rightarrow> 't TeamInfo_scheme) \<times> 's State_scheme) option" where
  "sampleDecode b h s =
     (case b of
        [] \<Rightarrow> None
      | c # b1 \<Rightarrow>
          (case decGameState c of
             None \<Rightarrow> None
           | Some g \<Rightarrow>
               if length b1 < 192 then None
               else (case decTeams (TeamState s) (drop 192 b1) h of
                       None \<Rightarrow> None
                     | Some h1 \<Rightarrow>
                         Some (h1, s\<lparr>GameState := g,
                                     StageTimeElapsed := decDuration (take 64 b1),
                                     StageTimeLeft := decDuration (take 64 (drop 64 b1)),
                                     MatchDuration := decDuration (take 64 (drop 128 b1))\<rparr>))))"

definition sampleCodec :: "('s, 't) Codec" where
  "sampleCodec =
     \<lparr>json_MarshalIndent = sampleEncode, json_Marshal = sampleEncode,
      json_Unmarshal = sampleDecode\<rparr>"

text \<open>
  A rules engine to run the controller with: it rejects the command \<open>bogus\<close> and accepts
  every other event, leaving the event as it is; on the command \<open>start\<close> it sets the
  run-mode of the singleton to Running.
\<close>

definition sampleProcessEvent ::
  "Event \<Rightarrow> ('s, 't) World \<Rightarrow> Event \<times> string option \<times> ('s, 't) World" where
  "sampleProcessEvent event w =
     (if Command event = Some ''bogus'' then (event, Some ''unknown command'', w)
      else if Command event = Some ''start''
      then (event, None,
            setCtrl (RefBox w)
              ((ctrls w (RefBox w))\<lparr>State :=
                 (State (ctrls w (RefBox w)))\<lparr>GameState := GameStateRunning\<rparr>\<rparr>) w)
      else (event, None, w))"

text \<open>
  The store after a restart: no cards and no timeout left anywhere. \<open>sampleSnapshot\<close> is
  what the sample codec writes for the sample state while Running with 600 s left, and
  \<open>crowdedHeap\<close> a store in which every team has 10000 yellow cards of 120 s.
\<close>

definition freshHeap :: "addr \<Rightarrow> TeamInfo" where
  "freshHeap a = \<lparr>YellowCardTimes = [], TimeoutTimeLeft = 0\<rparr>"

definition sampleSnapshot :: string where
  "sampleSnapshot =
     (case sampleEncode sampleHeap (sampleState GameStateRunning None 600000000000) of
        None \<Rightarrow> [] | Some b \<Rightarrow> b)"

definition crowdedHeap :: "addr \<Rightarrow> TeamInfo" where
  "crowdedHeap a =
     \<lparr>YellowCardTimes = replicate 10000 120000000000, TimeoutTimeLeft = 300000000000\<rparr>"

subsection \<open>A complete codec\<close>

text \<open>
  Modelled from the spec: the declaration of \<^verbatim>\<open>State\<close> with its JSON field names is
  outside the sources, and so are the functions of \<^verbatim>\<open>encoding/json\<close>, so the sources do
  not determine what a snapshot looks like on disk. The spec requires that encoding
  followed by decoding is a round trip on the state, and \<open>snapCodec\<close> is a codec that is
  one. It writes every field of a State: the run-mode (a letter, and for a run-mode
  without a letter its name), the designated team, the three durations, the number of
  entries of \<^verbatim>\<open>TeamState\<close> and every entry, with the name of its team and, unless its pointer
  is nil, the timeout left, the number of yellow cards and the yellow cards of its
  TeamInfo. A number is written as 64 binary digits and a string as its length and its
  characters. Encoding never fails. The decoder reads all of this back, refuses input of
  any other form, and returns the State read, its map pointing to new TeamInfo objects,
  which it puts into the store at addresses above those the target's map points to.
\<close>

definition encString :: "string \<Rightarrow> string" where
  "encString s = encDuration (word_of_nat (length s)) @ s"

definition decDurationP :: "string \<Rightarrow> (Duration \<times> string) option" where
  "decDurationP b = (if length b < 64 then None else Some (decDuration (take 64 b), drop 64 b))"

definition decStringP :: "string \<Rightarrow> (string \<times> string) option" where
  "decStringP b =
     (case decDurationP b of
        None \<Rightarrow> None
      | Some (n, r) \<Rightarrow>
          if length r < unat n then None else Some (take (unat n) r, drop (unat n) r))"

fun decCardsP :: "nat \<Rightarrow> string \<Rightarrow> (Duration list \<times> string) option" where
  "decCardsP 0 b = Some ([], b)"
| "decCardsP (Suc n) b =
     (case decDurationP b of
        None \<Rightarrow> None
      | Some (x, r) \<Rightarrow>
          (case decCardsP n r of None \<Rightarrow> None | Some (xs, r1) \<Rightarrow> Some (x # xs, r1)))"

definition encInfo :: "TeamInfo \<Rightarrow> string" where
  "encInfo ti =
     encDuration (TimeoutTimeLeft ti) @ encDuration (word_of_nat (length (YellowCardTimes ti)))
       @ concat (map encDuration (YellowCardTimes ti))"

definition decInfoP :: "string \<Rightarrow> (TeamInfo \<times> string) option" where
  "decInfoP b =
     (case decDurationP b of
        None \<Rightarrow> None
      | Some (t, r) \<Rightarrow>
          (case decDurationP r of
             None \<Rightarrow> None
           | Some (n, r1) \<Rightarrow>
               (case decCardsP (unat n) r1 of
                  None \<Rightarrow> None
                | Some (cs, r2) \<Rightarrow> Some (\<lparr>YellowCardTimes = cs, TimeoutTimeLeft = t\<rparr>, r2))))"

definition encEntry :: "Team \<times> TeamInfo option \<Rightarrow> string" where
  "encEntry e =
     encString (fst e) @ (case snd e of None \<Rightarrow> ''-'' | Some ti \<Rightarrow> CHR ''+'' # encInfo ti)"

definition decEntryP :: "string \<Rightarrow> ((Team \<times> TeamInfo option) \<times> string) option" where
  "decEntryP b =
     (case decStringP b of
        None \<Rightarrow> None
      | Some (t, r) \<Rightarrow>
          (case r of
             [] \<Rightarrow> None
           | c # r1 \<Rightarrow>
               if c = CHR ''-'' then Some ((t, None), r1)
               else if c = CHR ''+'' then
                 (case decInfoP r1 of
                    None \<Rightarrow> None
                  | Some (ti, r2) \<Rightarrow> Some ((t, Some ti), r2))
               else None))"

fun decEntriesP :: "nat \<Rightarrow> string \<Rightarrow> ((Team \<times> TeamInfo option) list \<times> string) option" where
  "decEntriesP 0 b = Some ([], b)"
| "decEntriesP (Suc n) b =
     (case decEntryP b of
        None \<Rightarrow> None
      | Some (e, r) \<Rightarrow>
          (case decEntriesP n r of None \<Rightarrow> None | Some (es, r1) \<Rightarrow> Some (e # es, r1)))"

definition encRunMode :: "GameState \<Rightarrow> string" where
  "encRunMode g =
     (case g of
        GameStateHalted \<Rightarrow> ''H''
      | GameStateStopped \<Rightarrow> ''S''
      | GameStateRunning \<Rightarrow> ''R''
      | GameStateTimeout \<Rightarrow> ''T''
      | GameStateOther n \<Rightarrow> CHR ''O'' # encString n)"

definition decRunModeP :: "string \<Rightarrow> (GameState \<times> string) option" where
  "decRunModeP b =
     (case b of
        [] \<Rightarrow> None
      | c # r \<Rightarrow>
          if c = CHR ''H'' then Some (GameStateHalted, r)
          else if c = CHR ''S'' then Some (GameStateStopped, r)
          else if c = CHR ''R'' then Some (GameStateRunning, r)
          else if c = CHR ''T'' then Some (GameStateTimeout, r)
          else if c = CHR ''O'' then
            (case decStringP r of None \<Rightarrow> None | Some (n, r1) \<Rightarrow> Some (GameStateOther n, r1))
          else None)"

definition encTeamOpt :: "Team option \<Rightarrow> string" where
  "encTeamOpt f = (case f of None \<Rightarrow> ''-'' | Some t \<Rightarrow> CHR ''+'' # encString t)"

definition decTeamOptP :: "string \<Rightarrow> (Team option \<times> string) option" where
  "decTeamOptP b =
     (case b of
        [] \<Rightarrow> None
      | c # r \<Rightarrow>
          if c = CHR ''-'' then Some (None, r)
          else if c = CHR ''+'' then
            (case decStringP r of None \<Rightarrow> None | Some (t, r1) \<Rightarrow> Some (Some t, r1))
          else None)"

definition snapEncode :: "(addr \<Rightarrow> TeamInfo) \<Rightarrow> State \<Rightarrow> string option" where
  "snapEncode h s =
     Some (encRunMode (GameState s) @ encTeamOpt (GameStateFor s)
             @ encDuration (StageTimeElapsed s) @ encDuration (StageTimeLeft s)
             @ encDuration (MatchDuration s) @ encDuration (word_of_nat (length (TeamState s)))
             @ concat (map (\<lambda>e. encEntry (fst e, map_option h (snd e))) (TeamState s)))"

fun freshAddr :: "(Team \<times> addr option) list \<Rightarrow> addr" where
  "freshAddr [] = 0"
| "freshAddr ((t, None) # es) = freshAddr es"
| "freshAddr ((t, Some a) # es) = max (Suc a) (freshAddr es)"

fun place ::
  "(Team \<times> TeamInfo option) list \<Rightarrow> addr \<Rightarrow> (addr \<Rightarrow> TeamInfo)
     \<Rightarrow> (Team \<times> addr option) list \<times> (addr \<Rightarrow> TeamInfo)" where
  "place [] n h = ([], h)"
| "place ((t, None) # xs) n h = (case place xs n h of (es, h1) \<Rightarrow> ((t, None) # es, h1))"
| "place ((t, Some ti) # xs) n h =
     (case place xs (Suc n) (h(n := ti)) of (es, h1) \<Rightarrow> ((t, Some n) # es, h1))"

definition snapDecode ::
  "string \<Rightarrow> (addr \<Rightarrow> TeamInfo) \<Rightarrow> State \<Rightarrow> ((addr \<Rightarrow> TeamInfo) \<times> State) option" where
  "snapDecode b h s =
     (case decRunModeP b of None \<Rightarrow> None | Some (g, r1) \<Rightarrow>
     (case decTeamOptP r1 of None \<Rightarrow> None | Some (f, r2) \<Rightarrow>
     (case decDurationP r2 of None \<Rightarrow> None | Some (e, r3) \<Rightarrow>
     (case decDurationP r3 of None \<Rightarrow> None | Some (l, r4) \<Rightarrow>
     (case decDurationP r4 of None \<Rightarrow> None | Some (m, r5) \<Rightarrow>
     (case decDurationP r5 of None \<Rightarrow> None | Some (n, r6) \<Rightarrow>
     (case decEntriesP (unat n) r6 of None \<Rightarrow> None | Some (xs, r7) \<Rightarrow>
        if r7 \<noteq> [] then None
        else (case place xs (freshAddr (TeamState s)) h of
                (es, h1) \<Rightarrow>
                  Some (h1, \<lparr>GameState = g, GameStateFor = f, StageTimeElapsed = e,
                             StageTimeLeft = l, MatchDuration = m, TeamState = es\<rparr>)))))))))"

definition snapCodec :: "(unit, unit) Codec" where
  "snapCodec =
     \<lparr>json_MarshalIndent = snapEncode, json_Marshal = snapEncode, json_Unmarshal = snapDecode\<rparr>"

text \<open>
  A run of the controller on the sample world: the event \<open>start\<close> is committed, the clock
  ticks one second, a second event is committed, and the last action is undone.
\<close>

definition committedRun :: "(unit, unit) World" where
  "committedRun =
     projr (OnNewEvent sampleProcessEvent sampleCodec 0 \<lparr>Command = Some ''start''\<rparr>
       (sampleWorld (sampleCtrl (sampleState GameStateHalted None 600000000000) [] 0)
          (sampleCtrl (sampleState GameStateHalted None 0) [] 0)))"

definition tickedRun :: "(unit, unit) World" where
  "tickedRun = projr (Tick 0 1000000000 0 committedRun)"

definition recommittedRun :: "(unit, unit) World" where
  "recommittedRun =
     projr (OnNewEvent sampleProcessEvent sampleCodec 0 \<lparr>Command = Some ''halt''\<rparr> tickedRun)"

definition undoneRun :: "(unit, unit) World" where
  "undoneRun = UndoLastAction 0 recommittedRun"

section \<open>Auxiliary facts\<close>

lemma reduceTimes_map: "reduceTimes xs d = map (\<lambda>x. x - d) xs"
  by (induction xs) simp_all

lemma retainPositive_filter: "retainPositive b xs = b @ filter (\<lambda>x. 0 <s x) xs"
  by (induction xs arbitrary: b) simp_all

lemma tick_cards:
  "YellowCardTimes (removeElapsedYellowCards (reduceYellowCardTimes ti d)) =
     filter (\<lambda>x. \<not> x \<le>s 0) (map (\<lambda>x. x - d) (YellowCardTimes ti))"
proof -
  have "(\<lambda>x::Duration. 0 <s x) = (\<lambda>x. \<not> x \<le>s 0)"
    by (auto simp: fun_eq_iff word_sless_alt word_sle_eq)
  then show ?thesis
    by (simp add: removeElapsedYellowCards_def reduceYellowCardTimes_def reduceTimes_map
        retainPositive_filter)
qed

lemma tick_other_fields:
  "removeElapsedYellowCards (reduceYellowCardTimes ti d) =
     ti\<lparr>YellowCardTimes := YellowCardTimes (removeElapsedYellowCards (reduceYellowCardTimes ti d))\<rparr>"
  by (simp add: removeElapsedYellowCards_def reduceYellowCardTimes_def)

lemma updateTeams_Inr:
  "None \<notin> snd ` set es \<Longrightarrow> \<exists>h'. updateTeams es d h = Inr h'"
  by (induction es d h rule: updateTeams.induct) auto

lemma updateTeams_Panic:
  "None \<in> snd ` set es \<Longrightarrow> updateTeams es d h = Inl Panic"
  by (induction es d h rule: updateTeams.induct) auto

lemma updateTeams_untouched:
  "updateTeams es d h = Inr h' \<Longrightarrow> Some a \<notin> snd ` set es \<Longrightarrow> h' a = h a"
proof (induction es arbitrary: h)
  case Nil
  then show ?case by simp
next
  case (Cons e es)
  obtain t p where e: "e = (t, p)" by (cases e)
  with Cons.prems obtain b where p: "p = Some b" by (cases p) auto
  let ?h = "h(b := removeElapsedYellowCards (reduceYellowCardTimes (h b) d))"
  from Cons.prems e p have neq: "a \<noteq> b" and rest: "Some a \<notin> snd ` set es" by auto
  from Cons.prems e p have run: "updateTeams es d ?h = Inr h'" by simp
  from Cons.IH [OF run rest] neq show ?case by simp
qed

lemma updateTeams_distinct:
  "updateTeams es d h = Inr h' \<Longrightarrow> distinct (map snd es) \<Longrightarrow> Some a \<in> snd ` set es \<Longrightarrow>
     h' a = removeElapsedYellowCards (reduceYellowCardTimes (h a) d)"
proof (induction es arbitrary: h)
  case Nil
  then show ?case by simp
next
  case (Cons e es)
  obtain t p where e: "e = (t, p)" by (cases e)
  with Cons.prems obtain b where p: "p = Some b" by (cases p) auto
  let ?h = "h(b := removeElapsedYellowCards (reduceYellowCardTimes (h b) d))"
  from Cons.prems e p have run: "updateTeams es d ?h = Inr h'" by simp
  show ?case
  proof (cases "a = b")
    case True
    with Cons.prems e p have "Some a \<notin> snd ` set es" by auto
    with run have "h' a = ?h a" by (rule updateTeams_untouched)
    with True show ?thesis by simp
  next
    case False
    with Cons.prems e p have "Some a \<in> snd ` set es" by auto
    moreover from Cons.prems have "distinct (map snd es)" by simp
    ultimately have "h' a = removeElapsedYellowCards (reduceYellowCardTimes (?h a) d)"
      using Cons.IH [OF run] by blast
    with False show ?thesis by simp
  qed
qed



lemma updateRunning_Inr:
  "updateRunning r d w = Inr w' \<Longrightarrow>
     \<exists>h. updateTeams (TeamState (State (ctrls w r))) d (heap w) = Inr h \<and>
         w' = (setCtrl r ((ctrls w r)\<lparr>State := (State (ctrls w r))
                  \<lparr>StageTimeElapsed := StageTimeElapsed (State (ctrls w r)) + d,
                   StageTimeLeft := StageTimeLeft (State (ctrls w r)) - d\<rparr>\<rparr>) w)\<lparr>heap := h\<rparr>"
  by (auto simp: updateRunning_def Let_def split: sum.splits)

lemma Tick_Running:
  assumes "GameState (State (ctrls w r)) = GameStateRunning"
  shows "Tick r d now w =
     (case updateTeams (TeamState (State (ctrls w r))) d (heap w) of
        Inl e \<Rightarrow> Inl e
      | Inr h \<Rightarrow>
          Inr ((setCtrl r ((ctrls w r)\<lparr>State := (State (ctrls w r))
                  \<lparr>StageTimeElapsed := StageTimeElapsed (State (ctrls w r)) + d,
                   StageTimeLeft := StageTimeLeft (State (ctrls w r)) - d,
                   MatchDuration :=
                     (if time_After (MatchTimeStart (ctrls w r)) time_Unix_0_0
                      then time_Sub now (MatchTimeStart (ctrls w r))
                      else MatchDuration (State (ctrls w r)))\<rparr>\<rparr>) w)\<lparr>heap := h\<rparr>))"
  using assms
  by (simp add: Tick_def updateTimes_def updateRunning_def Let_def setCtrl_def
      split: sum.splits)

lemma Tick_Timeout:
  assumes "GameState (State (ctrls w r)) = GameStateTimeout"
  shows "Tick r d now w =
     (case updateTimeout r d w of
        Inl e \<Rightarrow> Inl e
      | Inr w1 \<Rightarrow>
          Inr (setCtrl r ((ctrls w r)\<lparr>State := (State (ctrls w r))
                  \<lparr>MatchDuration :=
                     (if time_After (MatchTimeStart (ctrls w r)) time_Unix_0_0
                      then time_Sub now (MatchTimeStart (ctrls w r))
                      else MatchDuration (State (ctrls w r)))\<rparr>\<rparr>) w1))"
  using assms
  by (auto simp: Tick_def updateTimes_def updateTimeout_def Let_def setCtrl_def
      split: sum.splits option.splits)

lemma Tick_idle:
  assumes "GameState (State (ctrls w r)) \<noteq> GameStateRunning"
      and "GameState (State (ctrls w r)) \<noteq> GameStateTimeout"
  shows "Tick r d now w =
          Inr (setCtrl r ((ctrls w r)\<lparr>State := (State (ctrls w r))
                  \<lparr>MatchDuration :=
                     (if time_After (MatchTimeStart (ctrls w r)) time_Unix_0_0
                      then time_Sub now (MatchTimeStart (ctrls w r))
                      else MatchDuration (State (ctrls w r)))\<rparr>\<rparr>) w)"
  using assms
  by (auto simp: Tick_def updateTimes_def Let_def setCtrl_def)

lemma sint_add_exact:
  fixes a b :: Duration
  assumes "- (2 ^ 63) \<le> sint a + sint b" and "sint a + sint b < 2 ^ 63"
  shows "sint (a + b) = sint a + sint b"
  using assms by (simp add: sint_word_add signed_take_bit_int_eq_self)

lemma sint_diff_exact:
  fixes a b :: Duration
  assumes "- (2 ^ 63) \<le> sint a - sint b" and "sint a - sint b < 2 ^ 63"
  shows "sint (a - b) = sint a - sint b"
  using assms by (simp add: sint_word_diff signed_take_bit_int_eq_self)

section \<open>The claims\<close>

text \<open>
  Claim C3. A tick of \<open>d\<close> while the run-mode is Running returns whenever no team's
  pointer is nil, and whenever it returns stage-elapsed is the old value plus \<open>d\<close>,
  stage-remaining the old value minus \<open>d\<close>, and their sum is the old sum. The arithmetic
  is that of \<^verbatim>\<open>time.Duration\<close>; read as integers the two values move by exactly \<open>d\<close>
  when the result is in the 64-bit range, and stage-remaining becomes negative when \<open>d\<close>
  exceeds it. Nothing restricts \<open>d\<close>, so the statement covers every \<open>d > 0\<close>.
\<close>

theorem Tick_Running_stage_times:
  assumes "GameState (State (ctrls w r)) = GameStateRunning"
  shows "(None \<notin> snd ` set (TeamState (State (ctrls w r))) \<longrightarrow> (\<exists>w'. Tick r d now w = Inr w')) \<and>
    (\<forall>w'. Tick r d now w = Inr w' \<longrightarrow>
       StageTimeElapsed (State (ctrls w' r)) = StageTimeElapsed (State (ctrls w r)) + d \<and>
       StageTimeLeft (State (ctrls w' r)) = StageTimeLeft (State (ctrls w r)) - d \<and>
       StageTimeElapsed (State (ctrls w' r)) + StageTimeLeft (State (ctrls w' r)) =
         StageTimeElapsed (State (ctrls w r)) + StageTimeLeft (State (ctrls w r)) \<and>
       (- (2 ^ 63) \<le> sint (StageTimeElapsed (State (ctrls w r))) + sint d \<and>
        sint (StageTimeElapsed (State (ctrls w r))) + sint d < 2 ^ 63 \<longrightarrow>
          sint (StageTimeElapsed (State (ctrls w' r))) =
            sint (StageTimeElapsed (State (ctrls w r))) + sint d) \<and>
       (- (2 ^ 63) \<le> sint (StageTimeLeft (State (ctrls w r))) - sint d \<and>
        sint (StageTimeLeft (State (ctrls w r))) - sint d < 2 ^ 63 \<longrightarrow>
          sint (StageTimeLeft (State (ctrls w' r))) =
            sint (StageTimeLeft (State (ctrls w r))) - sint d) \<and>
       (- (2 ^ 63) \<le> sint (StageTimeLeft (State (ctrls w r))) - sint d \<and>
        sint (StageTimeLeft (State (ctrls w r))) < sint d \<longrightarrow>
          sint (StageTimeLeft (State (ctrls w' r))) < 0))"
proof (intro conjI impI allI)
  assume "None \<notin> snd ` set (TeamState (State (ctrls w r)))"
  then obtain h where "updateTeams (TeamState (State (ctrls w r))) d (heap w) = Inr h"
    using updateTeams_Inr by blast
  then show "\<exists>w'. Tick r d now w = Inr w'"
    by (simp add: Tick_Running [OF assms])
next
  fix w'
  assume run: "Tick r d now w = Inr w'"
  then show e: "StageTimeElapsed (State (ctrls w' r)) = StageTimeElapsed (State (ctrls w r)) + d"
    by (auto simp: Tick_Running [OF assms] setCtrl_def split: sum.splits)
  from run show l: "StageTimeLeft (State (ctrls w' r)) = StageTimeLeft (State (ctrls w r)) - d"
    by (auto simp: Tick_Running [OF assms] setCtrl_def split: sum.splits)
  from e l show "StageTimeElapsed (State (ctrls w' r)) + StageTimeLeft (State (ctrls w' r)) =
         StageTimeElapsed (State (ctrls w r)) + StageTimeLeft (State (ctrls w r))"
    by simp
  {
    assume "- (2 ^ 63) \<le> sint (StageTimeElapsed (State (ctrls w r))) + sint d \<and>
        sint (StageTimeElapsed (State (ctrls w r))) + sint d < 2 ^ 63"
    then show "sint (StageTimeElapsed (State (ctrls w' r))) =
            sint (StageTimeElapsed (State (ctrls w r))) + sint d"
      by (simp add: e sint_add_exact)
  }
  {
    assume "- (2 ^ 63) \<le> sint (StageTimeLeft (State (ctrls w r))) - sint d \<and>
        sint (StageTimeLeft (State (ctrls w r))) - sint d < 2 ^ 63"
    then show "sint (StageTimeLeft (State (ctrls w' r))) =
            sint (StageTimeLeft (State (ctrls w r))) - sint d"
      by (simp add: l sint_diff_exact)
  }
  {
    assume a: "- (2 ^ 63) \<le> sint (StageTimeLeft (State (ctrls w r))) - sint d \<and>
        sint (StageTimeLeft (State (ctrls w r))) < sint d"
    have "sint (StageTimeLeft (State (ctrls w r))) < 2 ^ 63" "- (2 ^ 63) \<le> sint d"
      using sint_lt [of "StageTimeLeft (State (ctrls w r))"] sint_ge [of d] by simp_all
    with a have "sint (StageTimeLeft (State (ctrls w r)) - d) =
        sint (StageTimeLeft (State (ctrls w r))) - sint d"
      by (intro sint_diff_exact) linarith+
    with a show "sint (StageTimeLeft (State (ctrls w' r))) < 0"
      by (simp add: l)
  }
qed

theorem Tick_Running_stage_times_witness:
  "GameState (State (ctrls (sampleWorld (sampleCtrl (sampleState GameStateRunning None 600000000000) [] 0)
       (sampleCtrl (sampleState GameStateHalted None 0) [] 0)) 0)) = GameStateRunning \<and>
   (\<exists>w'. Tick 0 1000000000 0
            (sampleWorld (sampleCtrl (sampleState GameStateRunning None 600000000000) [] 0)
               (sampleCtrl (sampleState GameStateHalted None 0) [] 0)) = Inr w' \<and>
          StageTimeElapsed (State (ctrls w' 0)) = 1000000000 \<and>
          StageTimeLeft (State (ctrls w' 0)) = 599000000000 \<and>
          sint (StageTimeElapsed (State (ctrls w' 0))) = 1000000000 \<and>
          sint (StageTimeLeft (State (ctrls w' 0))) = 599000000000) \<and>
   (\<exists>w'. Tick 0 1000000000 0
            (sampleWorld (sampleCtrl (sampleState GameStateRunning None 500000000) [] 0)
               (sampleCtrl (sampleState GameStateHalted None 0) [] 0)) = Inr w' \<and>
          sint (StageTimeLeft (State (ctrls w' 0))) < 0)"
proof -
  let ?w1 = "sampleWorld (sampleCtrl (sampleState GameStateRunning None 600000000000) [] 0)
               (sampleCtrl (sampleState GameStateHalted None 0) [] 0)"
  let ?w2 = "sampleWorld (sampleCtrl (sampleState GameStateRunning None 500000000) [] 0)
               (sampleCtrl (sampleState GameStateHalted None 0) [] 0)"
  have r1: "GameState (State (ctrls ?w1 0)) = GameStateRunning"
    and r2: "GameState (State (ctrls ?w2 0)) = GameStateRunning"
    by (simp_all add: sampleWorld_def sampleCtrl_def sampleState_def)
  have n1: "None \<notin> snd ` set (TeamState (State (ctrls ?w1 0)))"
    and n2: "None \<notin> snd ` set (TeamState (State (ctrls ?w2 0)))"
    by (simp_all add: sampleWorld_def sampleCtrl_def sampleState_def)
  have v1: "StageTimeElapsed (State (ctrls ?w1 0)) = 0" "StageTimeLeft (State (ctrls ?w1 0)) = 600000000000"
    and v2: "StageTimeLeft (State (ctrls ?w2 0)) = 500000000"
    by (simp_all add: sampleWorld_def sampleCtrl_def sampleState_def)
  note t1 = Tick_Running_stage_times [OF r1, of 1000000000 0]
  note t2 = Tick_Running_stage_times [OF r2, of 1000000000 0]
  from t1 n1 obtain w1 where w1: "Tick 0 1000000000 0 ?w1 = Inr w1" by blast
  from t2 n2 obtain w2 where w2: "Tick 0 1000000000 0 ?w2 = Inr w2" by blast
  from t1 w1 have "StageTimeElapsed (State (ctrls w1 0)) = 1000000000 \<and>
          StageTimeLeft (State (ctrls w1 0)) = 599000000000 \<and>
          sint (StageTimeElapsed (State (ctrls w1 0))) = 1000000000 \<and>
          sint (StageTimeLeft (State (ctrls w1 0))) = 599000000000"
    by (simp add: v1)
  moreover from t2 w2 have "sint (StageTimeLeft (State (ctrls w2 0))) < 0"
    by (simp add: v2)
  ultimately show ?thesis using r1 w1 w2 by blast
qed

text \<open>
  Claim C4. After a tick of \<open>d\<close> while the run-mode is Running, the card sequence of a
  team is the old sequence with \<open>d\<close> taken off every duration \<open>x\<close> and exactly the
  entries with \<open>x - d \<le> 0\<close> (as signed 64-bit values) removed: a card is dropped if and
  only if \<open>x - d \<le> 0\<close>, a surviving card is \<open>x - d\<close>, and \<open>filter\<close> keeps the order. The
  team's pointer is \<open>Some a\<close>; no two entries of the map share a TeamInfo object, as each
  entry's object is visited once by the loop.
\<close>

theorem Tick_Running_cards:
  assumes "GameState (State (ctrls w r)) = GameStateRunning"
    and "Tick r d now w = Inr w'"
    and "distinct (map snd (TeamState (State (ctrls w r))))"
    and "(t, Some a) \<in> set (TeamState (State (ctrls w r)))"
  shows "YellowCardTimes (heap w' a) =
           filter (\<lambda>x. \<not> x \<le>s 0) (map (\<lambda>x. x - d) (YellowCardTimes (heap w a)))"
proof -
  from assms(1,2) obtain h where
    h: "updateTeams (TeamState (State (ctrls w r))) d (heap w) = Inr h" and "heap w' = h"
    by (auto simp: Tick_Running setCtrl_def split: sum.splits)
  moreover from assms(4) have "Some a \<in> snd ` set (TeamState (State (ctrls w r)))"
    by force
  ultimately have "heap w' a = removeElapsedYellowCards (reduceYellowCardTimes (heap w a) d)"
    using assms(3) by (simp add: updateTeams_distinct)
  then show ?thesis by (simp add: tick_cards)
qed

theorem Tick_Running_cards_witness:
  "GameState (State (ctrls (sampleWorld (sampleCtrl (sampleState GameStateRunning None 600000000000) [] 0)
       (sampleCtrl (sampleState GameStateHalted None 0) [] 0)) 0)) = GameStateRunning \<and>
   distinct (map snd (TeamState (State (ctrls (sampleWorld (sampleCtrl (sampleState GameStateRunning None 600000000000) [] 0)
       (sampleCtrl (sampleState GameStateHalted None 0) [] 0)) 0)))) \<and>
   (''Yellow'', Some 0) \<in> set (TeamState (State (ctrls (sampleWorld (sampleCtrl (sampleState GameStateRunning None 600000000000) [] 0)
       (sampleCtrl (sampleState GameStateHalted None 0) [] 0)) 0))) \<and>
   YellowCardTimes (heap (sampleWorld (sampleCtrl (sampleState GameStateRunning None 600000000000) [] 0)
       (sampleCtrl (sampleState GameStateHalted None 0) [] 0)) 0) =
     [1000000000, 120000000000, 500000000, 3000000000] \<and>
   (\<exists>w'. Tick 0 1000000000 0
            (sampleWorld (sampleCtrl (sampleState GameStateRunning None 600000000000) [] 0)
               (sampleCtrl (sampleState GameStateHalted None 0) [] 0)) = Inr w' \<and>
          YellowCardTimes (heap w' 0) = [119000000000, 2000000000])"
proof -
  let ?w = "sampleWorld (sampleCtrl (sampleState GameStateRunning None 600000000000) [] 0)
               (sampleCtrl (sampleState GameStateHalted None 0) [] 0)"
  have r: "GameState (State (ctrls ?w 0)) = GameStateRunning"
    and ts: "TeamState (State (ctrls ?w 0)) = [(''Yellow'', Some 0), (''Blue'', Some 1)]"
    and cs: "YellowCardTimes (heap ?w 0) = [1000000000, 120000000000, 500000000, 3000000000]"
    by (simp_all add: sampleWorld_def sampleCtrl_def sampleState_def sampleHeap_def)
  have dist: "distinct (map snd (TeamState (State (ctrls ?w 0))))"
    and mem: "(''Yellow'', Some 0) \<in> set (TeamState (State (ctrls ?w 0)))"
    by (simp_all add: ts)
  obtain w' where run: "Tick 0 1000000000 0 ?w = Inr w'"
    by (simp add: Tick_Running [OF r] ts)
  have "YellowCardTimes (heap w' 0) = [119000000000, 2000000000]"
    using Tick_Running_cards [OF r run dist mem] by (simp add: cs word_sle_eq)
  with r dist mem cs run show ?thesis by blast
qed



lemma Tick_keeps:
  assumes "Tick r d now w = Inr w'"
  shows "StateHistory (ctrls w' r') = StateHistory (ctrls w r')"
    and "files w' = files w" and "trace w' = trace w"
    and "lastStateFile (ctrls w' r') = lastStateFile (ctrls w r')"
    and "stateHistoryFile (ctrls w' r') = stateHistoryFile (ctrls w r')"
proof -
  consider (run) "GameState (State (ctrls w r)) = GameStateRunning"
    | (tmo) "GameState (State (ctrls w r)) = GameStateTimeout"
    | (idle) "GameState (State (ctrls w r)) \<noteq> GameStateRunning"
             "GameState (State (ctrls w r)) \<noteq> GameStateTimeout"
    by blast
  then have "StateHistory (ctrls w' r') = StateHistory (ctrls w r') \<and>
    files w' = files w \<and> trace w' = trace w \<and>
    lastStateFile (ctrls w' r') = lastStateFile (ctrls w r') \<and>
    stateHistoryFile (ctrls w' r') = stateHistoryFile (ctrls w r')"
  proof cases
    case run
    with assms show ?thesis
      by (auto simp: Tick_Running setCtrl_def split: sum.splits)
  next
    case tmo
    with assms show ?thesis
      by (auto simp: Tick_Timeout updateTimeout_def setCtrl_def split: sum.splits option.splits)
  next
    case idle
    with assms show ?thesis
      by (auto simp: Tick_idle setCtrl_def)
  qed
  then show "StateHistory (ctrls w' r') = StateHistory (ctrls w r')"
    and "files w' = files w" and "trace w' = trace w"
    and "lastStateFile (ctrls w' r') = lastStateFile (ctrls w r')"
    and "stateHistoryFile (ctrls w' r') = stateHistoryFile (ctrls w r')"
    by simp_all
qed

lemma Tick_history_blind:
  "Tick r d now (setCtrl r' ((ctrls w r')\<lparr>StateHistory := hist\<rparr>) w) =
     (case Tick r d now w of
        Inl e \<Rightarrow> Inl e
      | Inr w' \<Rightarrow> Inr (setCtrl r' ((ctrls w' r')\<lparr>StateHistory := hist\<rparr>) w'))"
proof -
  let ?w = "setCtrl r' ((ctrls w r')\<lparr>StateHistory := hist\<rparr>) w"
  have s: "State (ctrls ?w r) = State (ctrls w r)"
    and m: "MatchTimeStart (ctrls ?w r) = MatchTimeStart (ctrls w r)"
    and h: "heap ?w = heap w"
    by (simp_all add: setCtrl_def)
  consider (run) "GameState (State (ctrls w r)) = GameStateRunning"
    | (tmo) "GameState (State (ctrls w r)) = GameStateTimeout"
    | (idle) "GameState (State (ctrls w r)) \<noteq> GameStateRunning"
             "GameState (State (ctrls w r)) \<noteq> GameStateTimeout"
    by blast
  then show ?thesis
  proof cases
    case run
    then have "GameState (State (ctrls ?w r)) = GameStateRunning" by (simp add: s)
    from Tick_Running [OF this] Tick_Running [OF run] show ?thesis
      by (auto simp: s m h setCtrl_def fun_eq_iff split: sum.splits)
  next
    case tmo
    then have "GameState (State (ctrls ?w r)) = GameStateTimeout" by (simp add: s)
    from Tick_Timeout [OF this] Tick_Timeout [OF tmo] show ?thesis
      by (auto simp: s m h updateTimeout_def setCtrl_def fun_eq_iff split: sum.splits option.splits)
  next
    case idle
    then have "GameState (State (ctrls ?w r)) \<noteq> GameStateRunning"
      "GameState (State (ctrls ?w r)) \<noteq> GameStateTimeout" by (simp_all add: s)
    from Tick_idle [OF this] Tick_idle [OF idle] show ?thesis
      by (auto simp: s m h setCtrl_def fun_eq_iff)
  qed
qed

text \<open>
  What a tick leaves alone. When the run-mode is neither Running nor Timeout, Tick returns
  and leaves the store (card durations, timeout-remaining), every other controller and
  every field of the controller and of its State unchanged, except the match duration,
  which becomes \<open>now - start\<close> when the match start is after \<^verbatim>\<open>time.Unix(0, 0)\<close>; otherwise
  the world is unchanged. In every run-mode a Tick that returns leaves the list of State
  records in the history of every controller, the file handles, the contents of all
  files and the trace of effects (no write, no publish) as they were, and its result does
  not depend on the state history: replacing the history before the tick is the same as
  replacing it after.
\<close>

lemma Tick_idle_frame:
  "(GameState (State (ctrls w r)) \<noteq> GameStateRunning \<and>
    GameState (State (ctrls w r)) \<noteq> GameStateTimeout \<longrightarrow>
      (\<exists>w'. Tick r d now w = Inr w' \<and> heap w' = heap w \<and>
         (\<forall>r'. r' \<noteq> r \<longrightarrow> ctrls w' r' = ctrls w r') \<and>
         ctrls w' r = (ctrls w r)\<lparr>State := (State (ctrls w r))
                        \<lparr>MatchDuration := MatchDuration (State (ctrls w' r))\<rparr>\<rparr> \<and>
         (time_After (MatchTimeStart (ctrls w r)) time_Unix_0_0 \<longrightarrow>
            MatchDuration (State (ctrls w' r)) = time_Sub now (MatchTimeStart (ctrls w r))) \<and>
         (\<not> time_After (MatchTimeStart (ctrls w r)) time_Unix_0_0 \<longrightarrow> w' = w))) \<and>
   (\<forall>w'. Tick r d now w = Inr w' \<longrightarrow>
      files w' = files w \<and> trace w' = trace w \<and>
      (\<forall>r'. StateHistory (ctrls w' r') = StateHistory (ctrls w r') \<and>
            lastStateFile (ctrls w' r') = lastStateFile (ctrls w r') \<and>
            stateHistoryFile (ctrls w' r') = stateHistoryFile (ctrls w r'))) \<and>
   (\<forall>r' hist.
      Tick r d now (setCtrl r' ((ctrls w r')\<lparr>StateHistory := hist\<rparr>) w) =
        (case Tick r d now w of
           Inl e \<Rightarrow> Inl e
         | Inr w' \<Rightarrow> Inr (setCtrl r' ((ctrls w' r')\<lparr>StateHistory := hist\<rparr>) w')))"
proof (intro conjI impI allI)
  assume "GameState (State (ctrls w r)) \<noteq> GameStateRunning \<and>
    GameState (State (ctrls w r)) \<noteq> GameStateTimeout"
  then have t: "Tick r d now w =
          Inr (setCtrl r ((ctrls w r)\<lparr>State := (State (ctrls w r))
                  \<lparr>MatchDuration :=
                     (if time_After (MatchTimeStart (ctrls w r)) time_Unix_0_0
                      then time_Sub now (MatchTimeStart (ctrls w r))
                      else MatchDuration (State (ctrls w r)))\<rparr>\<rparr>) w)"
    by (simp add: Tick_idle)
  show "\<exists>w'. Tick r d now w = Inr w' \<and> heap w' = heap w \<and>
         (\<forall>r'. r' \<noteq> r \<longrightarrow> ctrls w' r' = ctrls w r') \<and>
         ctrls w' r = (ctrls w r)\<lparr>State := (State (ctrls w r))
                        \<lparr>MatchDuration := MatchDuration (State (ctrls w' r))\<rparr>\<rparr> \<and>
         (time_After (MatchTimeStart (ctrls w r)) time_Unix_0_0 \<longrightarrow>
            MatchDuration (State (ctrls w' r)) = time_Sub now (MatchTimeStart (ctrls w r))) \<and>
         (\<not> time_After (MatchTimeStart (ctrls w r)) time_Unix_0_0 \<longrightarrow> w' = w)"
    unfolding t by (simp add: setCtrl_def)
next
  fix w' assume "Tick r d now w = Inr w'"
  note k = Tick_keeps [OF this]
  show "files w' = files w" "trace w' = trace w" by (rule k)+
  fix r'
  show "StateHistory (ctrls w' r') = StateHistory (ctrls w r')"
    "lastStateFile (ctrls w' r') = lastStateFile (ctrls w r')"
    "stateHistoryFile (ctrls w' r') = stateHistoryFile (ctrls w r')"
    by (rule k)+
next
  fix r' hist
  show "Tick r d now (setCtrl r' ((ctrls w r')\<lparr>StateHistory := hist\<rparr>) w) =
        (case Tick r d now w of
           Inl e \<Rightarrow> Inl e
         | Inr w' \<Rightarrow> Inr (setCtrl r' ((ctrls w' r')\<lparr>StateHistory := hist\<rparr>) w'))"
    by (rule Tick_history_blind)
qed

lemma Tick_idle_frame_sample:
  "GameState (State (ctrls (sampleWorld (sampleCtrl (sampleState GameStateHalted None 600000000000) [] 5)
       (sampleCtrl (sampleState GameStateHalted None 0) [] 0)) 0)) \<noteq> GameStateRunning \<and>
   GameState (State (ctrls (sampleWorld (sampleCtrl (sampleState GameStateHalted None 600000000000) [] 5)
       (sampleCtrl (sampleState GameStateHalted None 0) [] 0)) 0)) \<noteq> GameStateTimeout \<and>
   (\<exists>w'. Tick 0 1000000000 12
            (sampleWorld (sampleCtrl (sampleState GameStateHalted None 600000000000) [] 5)
               (sampleCtrl (sampleState GameStateHalted None 0) [] 0)) = Inr w' \<and>
          heap w' = sampleHeap \<and> MatchDuration (State (ctrls w' 0)) = 7 \<and>
          StageTimeLeft (State (ctrls w' 0)) = 600000000000 \<and>
          StateHistory (ctrls w' 0) = [] \<and> files w' = (\<lambda>n. []) \<and> trace w' = []) \<and>
   Tick 0 1000000000 12
      (sampleWorld (sampleCtrl (sampleState GameStateHalted None 600000000000) [] 0)
         (sampleCtrl (sampleState GameStateHalted None 0) [] 0)) =
     Inr (sampleWorld (sampleCtrl (sampleState GameStateHalted None 600000000000) [] 0)
         (sampleCtrl (sampleState GameStateHalted None 0) [] 0))"
proof -
  define u1 where "u1 = sampleWorld (sampleCtrl (sampleState GameStateHalted None 600000000000) [] 5)
               (sampleCtrl (sampleState GameStateHalted None 0) [] 0)"
  define u2 where "u2 = sampleWorld (sampleCtrl (sampleState GameStateHalted None 600000000000) [] 0)
               (sampleCtrl (sampleState GameStateHalted None 0) [] 0)"
  have g1: "GameState (State (ctrls u1 0)) \<noteq> GameStateRunning \<and>
            GameState (State (ctrls u1 0)) \<noteq> GameStateTimeout"
    and g2: "GameState (State (ctrls u2 0)) \<noteq> GameStateRunning \<and>
            GameState (State (ctrls u2 0)) \<noteq> GameStateTimeout"
    by (simp_all add: u1_def u2_def sampleWorld_def sampleCtrl_def sampleState_def)
  have a1: "time_After (MatchTimeStart (ctrls u1 0)) time_Unix_0_0"
    and s1: "time_Sub 12 (MatchTimeStart (ctrls u1 0)) = 7"
    and a2: "\<not> time_After (MatchTimeStart (ctrls u2 0)) time_Unix_0_0"
    by (simp_all add: u1_def u2_def sampleWorld_def sampleCtrl_def time_After_def time_Unix_0_0_def
        time_Sub_def Let_def)
  have v1: "heap u1 = sampleHeap" "StageTimeLeft (State (ctrls u1 0)) = 600000000000"
    "StateHistory (ctrls u1 0) = []" "files u1 = (\<lambda>n. [])" "trace u1 = []"
    by (simp_all add: u1_def sampleWorld_def sampleCtrl_def sampleState_def)
  note t1 = Tick_idle_frame [of u1 0 1000000000 12]
  note t2 = Tick_idle_frame [of u2 0 1000000000 12]
  from t1 g1 obtain w1 where w1: "Tick 0 1000000000 12 u1 = Inr w1" "heap w1 = heap u1"
    "ctrls w1 0 = (ctrls u1 0)\<lparr>State := (State (ctrls u1 0))
                        \<lparr>MatchDuration := MatchDuration (State (ctrls w1 0))\<rparr>\<rparr>"
    "time_After (MatchTimeStart (ctrls u1 0)) time_Unix_0_0 \<longrightarrow>
            MatchDuration (State (ctrls w1 0)) = time_Sub 12 (MatchTimeStart (ctrls u1 0))"
    by blast
  have "StageTimeLeft (State (ctrls w1 0)) = StageTimeLeft (State (ctrls u1 0))"
    by (subst w1(3)) simp
  moreover from t1 w1(1) have "StateHistory (ctrls w1 0) = StateHistory (ctrls u1 0)"
     "files w1 = files u1" "trace w1 = trace u1"
    by blast+
  ultimately have r1: "heap w1 = sampleHeap \<and> MatchDuration (State (ctrls w1 0)) = 7 \<and>
          StageTimeLeft (State (ctrls w1 0)) = 600000000000 \<and>
          StateHistory (ctrls w1 0) = [] \<and> files w1 = (\<lambda>n. []) \<and> trace w1 = []"
    using w1 a1 s1 v1 by simp
  from t2 g2 a2 have "Tick 0 1000000000 12 u2 = Inr u2" by blast
  with r1 w1(1) g1 show ?thesis unfolding u1_def u2_def by blast
qed

text \<open>
  Claim C10. While the run-mode is Timeout and team \<open>t\<close> is designated, Tick looks \<open>t\<close>
  up in \<^verbatim>\<open>TeamState\<close> and dereferences the result without a test: it panics exactly when
  the lookup gives nil, so it panics when \<open>t\<close> has no entry, and whenever it returns \<open>t\<close>
  has an entry.
\<close>

theorem Tick_Timeout_unguarded_lookup:
  assumes "GameState (State (ctrls w r)) = GameStateTimeout"
    and "GameStateFor (State (ctrls w r)) = Some t"
  shows "(Tick r d now w = Inl Panic \<longleftrightarrow> lookupTeam (TeamState (State (ctrls w r))) t = None) \<and>
         (t \<notin> fst ` set (TeamState (State (ctrls w r))) \<longrightarrow> Tick r d now w = Inl Panic) \<and>
         ((\<exists>w'. Tick r d now w = Inr w') \<longrightarrow> t \<in> fst ` set (TeamState (State (ctrls w r))))"
proof -
  have p: "Tick r d now w = Inl Panic \<longleftrightarrow> lookupTeam (TeamState (State (ctrls w r))) t = None"
    using assms(2)
    by (auto simp: Tick_Timeout [OF assms(1)] updateTimeout_def split: option.splits)
  have n: "lookupTeam (TeamState (State (ctrls w r))) t = None"
    if "t \<notin> fst ` set (TeamState (State (ctrls w r)))"
  proof -
    from that have "map_of (TeamState (State (ctrls w r))) t = None"
      by (simp add: map_of_eq_None_iff)
    then show ?thesis by (simp add: lookupTeam_def)
  qed
  have "Tick r d now w = Inl Panic" if "t \<notin> fst ` set (TeamState (State (ctrls w r)))"
    using that p n by simp
  then have "t \<in> fst ` set (TeamState (State (ctrls w r)))" if "\<exists>w'. Tick r d now w = Inr w'"
    using that by force
  with p n show ?thesis by simp
  
qed

theorem Tick_Timeout_unguarded_lookup_witness:
  "GameState (State (ctrls (sampleWorld (sampleCtrl (sampleState GameStateTimeout (Some ''Green'') 600000000000) [] 0)
       (sampleCtrl (sampleState GameStateTimeout (Some ''Yellow'') 600000000000) [] 0)) 0)) = GameStateTimeout \<and>
   GameStateFor (State (ctrls (sampleWorld (sampleCtrl (sampleState GameStateTimeout (Some ''Green'') 600000000000) [] 0)
       (sampleCtrl (sampleState GameStateTimeout (Some ''Yellow'') 600000000000) [] 0)) 0)) = Some ''Green'' \<and>
   ''Green'' \<notin> fst ` set (TeamState (State (ctrls (sampleWorld (sampleCtrl (sampleState GameStateTimeout (Some ''Green'') 600000000000) [] 0)
       (sampleCtrl (sampleState GameStateTimeout (Some ''Yellow'') 600000000000) [] 0)) 0))) \<and>
   Tick 0 1000000000 0
     (sampleWorld (sampleCtrl (sampleState GameStateTimeout (Some ''Green'') 600000000000) [] 0)
        (sampleCtrl (sampleState GameStateTimeout (Some ''Yellow'') 600000000000) [] 0)) = Inl Panic \<and>
   (\<exists>w'. Tick 2 1000000000 0
     (sampleWorld (sampleCtrl (sampleState GameStateTimeout (Some ''Green'') 600000000000) [] 0)
        (sampleCtrl (sampleState GameStateTimeout (Some ''Yellow'') 600000000000) [] 0)) = Inr w') \<and>
   ''Yellow'' \<in> fst ` set (TeamState (State (ctrls (sampleWorld (sampleCtrl (sampleState GameStateTimeout (Some ''Green'') 600000000000) [] 0)
       (sampleCtrl (sampleState GameStateTimeout (Some ''Yellow'') 600000000000) [] 0)) 2)))"
proof -
  define u where "u = sampleWorld (sampleCtrl (sampleState GameStateTimeout (Some ''Green'') 600000000000) [] 0)
        (sampleCtrl (sampleState GameStateTimeout (Some ''Yellow'') 600000000000) [] 0)"
  have g0: "GameState (State (ctrls u 0)) = GameStateTimeout"
    and f0: "GameStateFor (State (ctrls u 0)) = Some ''Green''"
    and n0: "''Green'' \<notin> fst ` set (TeamState (State (ctrls u 0)))"
    and g1: "GameState (State (ctrls u 2)) = GameStateTimeout"
    and f1: "GameStateFor (State (ctrls u 2)) = Some ''Yellow''"
    and l1: "lookupTeam (TeamState (State (ctrls u 2))) ''Yellow'' \<noteq> None"
    by (simp_all add: u_def sampleWorld_def sampleCtrl_def sampleState_def lookupTeam_def)
  from Tick_Timeout_unguarded_lookup [OF g0 f0, of 1000000000 0] n0
  have p: "Tick 0 1000000000 0 u = Inl Panic" by blast
  have "\<exists>w'. Tick 2 1000000000 0 u = Inr w'"
    using l1 f1 by (auto simp: Tick_Timeout [OF g1] updateTimeout_def)
  with Tick_Timeout_unguarded_lookup [OF g1 f1, of 1000000000 0]
  have "(\<exists>w'. Tick 2 1000000000 0 u = Inr w') \<and>
        ''Yellow'' \<in> fst ` set (TeamState (State (ctrls u 2)))"
    by blast
  with g0 f0 n0 p show ?thesis unfolding u_def by blast
qed

text \<open>
  Claim C1. \<^verbatim>\<open>UndoLastAction\<close> on a history of fewer than two entries changes nothing.
  On a history \<open>[S0 \<dots> Sn]\<close> of at least two entries, that is \<open>pre @ [a, b]\<close> with
  \<open>a = S(n-1)\<close>, the current state becomes \<open>S(n-1)\<close>, the entry at index \<open>length - 2\<close>,
  and the history becomes \<open>pre = [S0 \<dots> S(n-2)]\<close>, its first \<open>length - 2\<close> entries; nothing
  else in the world changes. From \<open>[S0, S1, S2]\<close> the state is \<open>S1\<close> and the history \<open>[S0]\<close>.
\<close>

theorem UndoLastAction_spec:
  "(length (StateHistory (ctrls w r)) < 2 \<longrightarrow> UndoLastAction r w = w) \<and>
   (2 \<le> length (StateHistory (ctrls w r)) \<longrightarrow>
      UndoLastAction r w =
        setCtrl r ((ctrls w r)
          \<lparr>State := StateHistory (ctrls w r) ! (length (StateHistory (ctrls w r)) - 2),
           StateHistory :=
             take (length (StateHistory (ctrls w r)) - 2) (StateHistory (ctrls w r))\<rparr>) w) \<and>
   (\<forall>pre a b. StateHistory (ctrls w r) = pre @ [a, b] \<longrightarrow>
      State (ctrls (UndoLastAction r w) r) = a \<and>
      StateHistory (ctrls (UndoLastAction r w) r) = pre) \<and>
   (\<forall>S0 S1 S2. StateHistory (ctrls w r) = [S0, S1, S2] \<longrightarrow>
      State (ctrls (UndoLastAction r w) r) = S1 \<and>
      StateHistory (ctrls (UndoLastAction r w) r) = [S0])"
proof (intro conjI impI allI)
  assume "length (StateHistory (ctrls w r)) < 2"
  then show "UndoLastAction r w = w"
    by (simp add: UndoLastAction_def Let_def)
next
  assume "2 \<le> length (StateHistory (ctrls w r))"
  moreover from this
  have "nat (int (length (StateHistory (ctrls w r))) - 2) = length (StateHistory (ctrls w r)) - 2"
    by linarith
  ultimately show "UndoLastAction r w =
        setCtrl r ((ctrls w r)
          \<lparr>State := StateHistory (ctrls w r) ! (length (StateHistory (ctrls w r)) - 2),
           StateHistory :=
             take (length (StateHistory (ctrls w r)) - 2) (StateHistory (ctrls w r))\<rparr>) w"
    by (simp add: UndoLastAction_def Let_def)
next
  fix pre a b
  assume h: "StateHistory (ctrls w r) = pre @ [a, b]"
  then have "nat (int (length (StateHistory (ctrls w r))) - 2) = length pre" by simp
  with h show "State (ctrls (UndoLastAction r w) r) = a"
    and "StateHistory (ctrls (UndoLastAction r w) r) = pre"
    by (simp_all add: UndoLastAction_def Let_def setCtrl_def)
next
  fix S0 S1 S2
  assume h: "StateHistory (ctrls w r) = [S0, S1, S2]"
  then show "State (ctrls (UndoLastAction r w) r) = S1"
    and "StateHistory (ctrls (UndoLastAction r w) r) = [S0]"
    by (simp_all add: UndoLastAction_def Let_def setCtrl_def)
qed

theorem UndoLastAction_spec_witness:
  "UndoLastAction 0
     (sampleWorld (sampleCtrl (sampleState GameStateHalted None 7) [sampleState GameStateHalted None 7] 0)
        (sampleCtrl (sampleState GameStateHalted None 0) [] 0)) =
     sampleWorld (sampleCtrl (sampleState GameStateHalted None 7) [sampleState GameStateHalted None 7] 0)
        (sampleCtrl (sampleState GameStateHalted None 0) [] 0) \<and>
   State (ctrls (UndoLastAction 0
     (sampleWorld (sampleCtrl (sampleState GameStateRunning None 5)
          [sampleState GameStateHalted None 7, sampleState GameStateStopped None 6,
           sampleState GameStateRunning None 5] 0)
        (sampleCtrl (sampleState GameStateHalted None 0) [] 0))) 0) =
     sampleState GameStateStopped None 6 \<and>
   StateHistory (ctrls (UndoLastAction 0
     (sampleWorld (sampleCtrl (sampleState GameStateRunning None 5)
          [sampleState GameStateHalted None 7, sampleState GameStateStopped None 6,
           sampleState GameStateRunning None 5] 0)
        (sampleCtrl (sampleState GameStateHalted None 0) [] 0))) 0) =
     [sampleState GameStateHalted None 7]"
proof -
  define u1 where "u1 = sampleWorld (sampleCtrl (sampleState GameStateHalted None 7) [sampleState GameStateHalted None 7] 0)
        (sampleCtrl (sampleState GameStateHalted None 0) [] 0)"
  define u3 where "u3 = sampleWorld (sampleCtrl (sampleState GameStateRunning None 5)
          [sampleState GameStateHalted None 7, sampleState GameStateStopped None 6,
           sampleState GameStateRunning None 5] 0)
        (sampleCtrl (sampleState GameStateHalted None 0) [] 0)"
  have h1: "StateHistory (ctrls u1 0) = [sampleState GameStateHalted None 7]"
    and h3: "StateHistory (ctrls u3 0) = [sampleState GameStateHalted None 7,
       sampleState GameStateStopped None 6, sampleState GameStateRunning None 5]"
    by (simp_all add: u1_def u3_def sampleWorld_def sampleCtrl_def)
  from h1 have "length (StateHistory (ctrls u1 0)) < 2" by simp
  with UndoLastAction_spec [of u1 0] have a: "UndoLastAction 0 u1 = u1" by blast
  from h3 have "2 \<le> length (StateHistory (ctrls u3 0))"
    and "StateHistory (ctrls u3 0) = [sampleState GameStateHalted None 7]
           @ [sampleState GameStateStopped None 6, sampleState GameStateRunning None 5]"
    by simp_all
  with UndoLastAction_spec [of u3 0] h3
  have "State (ctrls (UndoLastAction 0 u3) 0) = sampleState GameStateStopped None 6 \<and>
        StateHistory (ctrls (UndoLastAction 0 u3) 0) = [sampleState GameStateHalted None 7]"
    by blast
  with a show ?thesis unfolding u1_def u3_def by blast
qed

subsection \<open>Facts about persistence and the sample codec\<close>

lemma SaveLatestState_ok:
  assumes "json_MarshalIndent cd (heap w) (State (ctrls w r)) = Some js"
    and "lastStateFile (ctrls w r) = Some f"
    and "\<not> truncateFails (faults w)" and "\<not> writeAtFails (faults w)"
  shows "SaveLatestState cd r w =
           Inr (w\<lparr>files := (files w)(fname f := js),
                  trace := trace w @ [FileTruncate (fname f), FileWriteAt (fname f) js,
                                      FileSync (fname f)]\<rparr>)"
  using assms
  by (simp add: SaveLatestState_def file_Truncate0_def file_WriteAt0_def file_Sync_def emit_def)

lemma SaveStateHistory_ok:
  assumes "json_Marshal cd (heap w) (State (ctrls w r)) = Some jh"
    and "stateHistoryFile (ctrls w r) = Some g"
  shows "SaveStateHistory cd r w =
           w\<lparr>ctrls := (ctrls w)(r := (ctrls w r)
                 \<lparr>StateHistory := StateHistory (ctrls w r) @ [State (ctrls w r)]\<rparr>),
             files := (files w)(fname g := files w (fname g) @ jh @ [CHR 0x0A]),
             trace := trace w @ [FileAppend (fname g) jh, FileAppend (fname g) [CHR 0x0A],
                                 FileSync (fname g)]\<rparr>"
  using assms
  by (simp add: SaveStateHistory_def Let_def file_Append_def file_Sync_def emit_def setCtrl_def)

lemma SaveState_ok:
  assumes "json_MarshalIndent cd (heap w) (State (ctrls w r)) = Some js"
    and "json_Marshal cd (heap w) (State (ctrls w r)) = Some jh"
    and "lastStateFile (ctrls w r) = Some f" and "stateHistoryFile (ctrls w r) = Some g"
    and "\<not> truncateFails (faults w)" and "\<not> writeAtFails (faults w)"
  shows "SaveState cd r w =
           Inr (w\<lparr>ctrls := (ctrls w)(r := (ctrls w r)
                    \<lparr>StateHistory := StateHistory (ctrls w r) @ [State (ctrls w r)]\<rparr>),
                  files := ((files w)(fname f := js))
                     (fname g := ((files w)(fname f := js)) (fname g) @ jh @ [CHR 0x0A]),
                  trace := trace w @ [FileTruncate (fname f), FileWriteAt (fname f) js,
                                      FileSync (fname f), FileAppend (fname g) jh,
                                      FileAppend (fname g) [CHR 0x0A], FileSync (fname g)]\<rparr>)"
proof -
  let ?w1 = "w\<lparr>files := (files w)(fname f := js),
                  trace := trace w @ [FileTruncate (fname f), FileWriteAt (fname f) js,
                                      FileSync (fname f)]\<rparr>"
  have 1: "SaveLatestState cd r w = Inr ?w1"
    using assms by (simp add: SaveLatestState_ok)
  have 2: "json_Marshal cd (heap ?w1) (State (ctrls ?w1 r)) = Some jh"
    "stateHistoryFile (ctrls ?w1 r) = Some g"
    using assms by simp_all
  show ?thesis
    by (simp add: SaveState_def 1 SaveStateHistory_ok [OF 2])
qed

lemma Publish_nil:
  "Publish cd r None w =
     Inr (w\<lparr>trace := trace w @
            [ApiServerPublishState (ApiServer (ctrls w r)) (State (ctrls w (RefBox w))),
             PublisherPublish (Publisher (ctrls w (RefBox w))) (State (ctrls w (RefBox w))) None]\<rparr>)"
  by (simp add: Publish_def emit_def)

lemma Publish_command:
  "Publish cd r (Some c) w =
     (case SaveState cd (RefBox w) w of
        Inl e \<Rightarrow> Inl e
      | Inr w1 \<Rightarrow>
          Inr (w1\<lparr>trace := trace w1 @
            [ApiServerPublishState (ApiServer (ctrls w1 r)) (State (ctrls w1 (RefBox w1))),
             PublisherPublish (Publisher (ctrls w1 (RefBox w1))) (State (ctrls w1 (RefBox w1)))
               (Some c)]\<rparr>))"
  by (simp add: Publish_def emit_def split: sum.splits)

lemma length_encDuration: "length (encDuration x) = 64"
  by (simp add: encDuration_def)

lemma decDuration_encDuration: "decDuration (encDuration x) = x"
proof -
  have "map (\<lambda>c. c = CHR ''1'') (encDuration x) = map (bit x) [0..<64]"
    by (simp add: encDuration_def)
  then have "decDuration (encDuration x) = take_bit 64 x"
    by (simp add: decDuration_def horner_sum_bit_eq_take_bit)
  then show ?thesis by (simp add: take_bit_word_eq_self)
qed

lemma length_encCards: "length (concat (map encDuration cs)) = 64 * length cs"
  by (induction cs) (simp_all add: length_encDuration)

lemma chunks_encCards:
  "map decDuration (chunks (length cs) (concat (map encDuration cs) @ rest)) = cs"
  by (induction cs) (simp_all add: length_encDuration decDuration_encDuration)

lemma decTeams_plus:
  assumes "length cs < 2 ^ 64"
  shows "decTeams ((t, Some a) # es)
           (CHR ''+'' # encDuration tmo @ encDuration (word_of_nat (length cs))
              @ concat (map encDuration cs) @ rest) h =
         decTeams es rest (h(a := (h a)\<lparr>YellowCardTimes := cs, TimeoutTimeLeft := tmo\<rparr>))"
proof -
  let ?b = "encDuration tmo @ encDuration (word_of_nat (length cs))
              @ concat (map encDuration cs) @ rest"
  have n: "unat (decDuration (take 64 (drop 64 ?b))) = length cs"
    using assms by (simp add: length_encDuration decDuration_encDuration unat_of_nat)
  have t: "decDuration (take 64 ?b) = tmo"
    by (simp add: length_encDuration decDuration_encDuration)
  have l: "\<not> length ?b < 128 + 64 * length cs"
    by (simp add: length_encDuration length_encCards)
  have d: "drop (128 + 64 * length cs) ?b = rest"
    by (simp add: length_encDuration length_encCards)
  have "take (64 * length cs) (drop 128 ?b) = concat (map encDuration cs)"
    by (simp add: length_encDuration length_encCards)
  then have c: "map decDuration (chunks (length cs) (take (64 * length cs) (drop 128 ?b))) = cs"
    using chunks_encCards [of cs "[]"] by simp
  show ?thesis
    by (simp only: decTeams.simps Let_def n t l d c if_False if_True option.case char.inject
        refl simp_thms)
qed

lemma readLastState_read:
  assumes "lastStateFile (ctrls w r) = Some f" and "\<not> readFails (faults w)"
  shows "readLastState cd r w =
     (let b = take bufSize (drop (pos f) (files w (fname f)));
          w1 = setCtrl r ((ctrls w r)\<lparr>lastStateFile := Some (f\<lparr>pos := pos f + length b\<rparr>)\<rparr>) w
      in if b = [] then Inr w
         else if length b = bufSize then Inl (Fatal ''Buffer size too small'')
         else (case json_Unmarshal cd b (heap w) (State (ctrls w (RefBox w))) of
                 None \<Rightarrow> Inl (Fatal ''Could not read last state'')
               | Some (h, s) \<Rightarrow>
                   Inr ((setCtrl (RefBox w) ((ctrls w1 (RefBox w))\<lparr>State := s\<rparr>) w1)
                          \<lparr>heap := h\<rparr>)))"
proof -
  have "(ctrls w r)\<lparr>lastStateFile := lastStateFile (ctrls w r)\<rparr> = ctrls w r"
    by simp
  then have "(ctrls w r)\<lparr>lastStateFile := Some f\<rparr> = ctrls w r"
    by (simp only: assms(1))
  then have same: "w\<lparr>ctrls := (ctrls w)(r := (ctrls w r)\<lparr>lastStateFile := Some f\<rparr>)\<rparr> = w"
    by simp
  have st: "State (ctrls (setCtrl r ((ctrls w r)\<lparr>lastStateFile := x\<rparr>) w) q) = State (ctrls w q)"
    for x q
    by (simp add: setCtrl_def)
  show ?thesis
    using assms
    by (auto simp: readLastState_def file_Read_def Let_def bufSize_def same st setCtrl_def
        split: option.splits)
qed

lemma sampleDecode_sampleEncode_two:
  assumes g: "encGameState (GameState s) = Some c"
    and ts: "TeamState s = [(t1, Some a1), (t2, Some a2)]"
    and ts0: "TeamState s0 = [(u1, Some b1), (u2, Some b2)]"
    and l1: "length (YellowCardTimes (h a1)) < 2 ^ 64"
    and l2: "length (YellowCardTimes (h a2)) < 2 ^ 64"
  shows "\<exists>bs. sampleEncode h s = Some bs \<and> bs \<noteq> [] \<and>
           length bs = 451 + 64 * (length (YellowCardTimes (h a1)) + length (YellowCardTimes (h a2))) \<and>
           sampleDecode bs h0 s0 =
             Some ((h0(b1 := (h0 b1)\<lparr>YellowCardTimes := YellowCardTimes (h a1),
                                      TimeoutTimeLeft := TimeoutTimeLeft (h a1)\<rparr>))
                      (b2 := ((h0(b1 := (h0 b1)\<lparr>YellowCardTimes := YellowCardTimes (h a1),
                                      TimeoutTimeLeft := TimeoutTimeLeft (h a1)\<rparr>)) b2)
                               \<lparr>YellowCardTimes := YellowCardTimes (h a2),
                                TimeoutTimeLeft := TimeoutTimeLeft (h a2)\<rparr>),
                   s0\<lparr>GameState := GameState s, StageTimeElapsed := StageTimeElapsed s,
                      StageTimeLeft := StageTimeLeft s, MatchDuration := MatchDuration s\<rparr>)"
proof -
  let ?T2 = "CHR ''+'' # encDuration (TimeoutTimeLeft (h a2))
      @ encDuration (word_of_nat (length (YellowCardTimes (h a2))))
      @ concat (map encDuration (YellowCardTimes (h a2))) @ []"
  let ?T1 = "CHR ''+'' # encDuration (TimeoutTimeLeft (h a1))
      @ encDuration (word_of_nat (length (YellowCardTimes (h a1))))
      @ concat (map encDuration (YellowCardTimes (h a1))) @ ?T2"
  let ?b1 = "encDuration (StageTimeElapsed s) @ encDuration (StageTimeLeft s)
      @ encDuration (MatchDuration s) @ ?T1"
  let ?h1 = "h0(b1 := (h0 b1)\<lparr>YellowCardTimes := YellowCardTimes (h a1),
                                      TimeoutTimeLeft := TimeoutTimeLeft (h a1)\<rparr>)"
  have enc: "sampleEncode h s = Some (c # ?b1)"
    by (simp add: sampleEncode_def g ts encTeam_def)
  have len: "length (c # ?b1) =
      451 + 64 * (length (YellowCardTimes (h a1)) + length (YellowCardTimes (h a2)))"
    by (simp add: length_encDuration length_encCards)
  have dg: "decGameState c = Some (GameState s)"
    using g by (auto simp: encGameState_def decGameState_def split: GameState.splits)
  have f: "decDuration (take 64 ?b1) = StageTimeElapsed s"
    "decDuration (take 64 (drop 64 ?b1)) = StageTimeLeft s"
    "decDuration (take 64 (drop 128 ?b1)) = MatchDuration s"
    "drop 192 ?b1 = ?T1" "\<not> length ?b1 < 192"
    by (simp_all add: length_encDuration decDuration_encDuration)
  have "decTeams (TeamState s0) ?T1 h0 = decTeams [(u2, Some b2)] ?T2 ?h1"
    unfolding ts0 by (rule decTeams_plus [OF l1])
  also have "\<dots> = decTeams [] [] (?h1(b2 := (?h1 b2)\<lparr>YellowCardTimes := YellowCardTimes (h a2),
                                TimeoutTimeLeft := TimeoutTimeLeft (h a2)\<rparr>))"
    by (rule decTeams_plus [OF l2])
  finally have dt: "decTeams (TeamState s0) ?T1 h0 =
      Some (?h1(b2 := (?h1 b2)\<lparr>YellowCardTimes := YellowCardTimes (h a2),
                                TimeoutTimeLeft := TimeoutTimeLeft (h a2)\<rparr>))"
    by simp
  have "sampleDecode (c # ?b1) h0 s0 =
             Some (?h1(b2 := (?h1 b2)\<lparr>YellowCardTimes := YellowCardTimes (h a2),
                                TimeoutTimeLeft := TimeoutTimeLeft (h a2)\<rparr>),
                   s0\<lparr>GameState := GameState s, StageTimeElapsed := StageTimeElapsed s,
                      StageTimeLeft := StageTimeLeft s, MatchDuration := MatchDuration s\<rparr>)"
    by (simp only: sampleDecode_def list.case dg option.case f if_False dt)
  with enc len show ?thesis by blast
qed

lemma sampleSnapshot_decodes:
  "sampleSnapshot \<noteq> [] \<and> length sampleSnapshot = 707 \<and>
   (\<exists>h. sampleDecode sampleSnapshot freshHeap (sampleState GameStateHalted None 0) =
          Some (h, sampleState GameStateRunning None 600000000000) \<and>
        h 0 = sampleHeap 0 \<and> h 1 = sampleHeap 1)"
proof -
  let ?s = "sampleState GameStateRunning None 600000000000"
  let ?t = "sampleState GameStateHalted None 0"
  have g: "encGameState (GameState ?s) = Some CHR ''R''"
    by (simp add: sampleState_def encGameState_def)
  have ts: "TeamState ?s = [(''Yellow'', Some 0), (''Blue'', Some 1)]"
    by (simp add: sampleState_def)
  have ts0: "TeamState ?t = [(''Yellow'', Some 0), (''Blue'', Some 1)]"
    by (simp add: sampleState_def)
  have l0: "length (YellowCardTimes (sampleHeap 0)) < 2 ^ 64"
    by (simp add: sampleHeap_def)
  have l1: "length (YellowCardTimes (sampleHeap 1)) < 2 ^ 64"
    by (simp add: sampleHeap_def)
  from sampleDecode_sampleEncode_two [OF g ts ts0 l0 l1, of freshHeap]
  obtain bs where bs: "sampleEncode sampleHeap ?s = Some bs" "bs \<noteq> []"
    "length bs = 451 + 64 * (length (YellowCardTimes (sampleHeap 0)) + length (YellowCardTimes (sampleHeap 1)))"
    "sampleDecode bs freshHeap ?t =
       Some ((freshHeap(0 := (freshHeap 0)\<lparr>YellowCardTimes := YellowCardTimes (sampleHeap 0),
                                      TimeoutTimeLeft := TimeoutTimeLeft (sampleHeap 0)\<rparr>))
                      (1 := ((freshHeap(0 := (freshHeap 0)\<lparr>YellowCardTimes := YellowCardTimes (sampleHeap 0),
                                      TimeoutTimeLeft := TimeoutTimeLeft (sampleHeap 0)\<rparr>)) 1)
                               \<lparr>YellowCardTimes := YellowCardTimes (sampleHeap 1),
                                TimeoutTimeLeft := TimeoutTimeLeft (sampleHeap 1)\<rparr>),
                   ?t\<lparr>GameState := GameState ?s, StageTimeElapsed := StageTimeElapsed ?s,
                      StageTimeLeft := StageTimeLeft ?s, MatchDuration := MatchDuration ?s\<rparr>)"
    by blast
  define h where "h = (freshHeap(0 := (freshHeap 0)\<lparr>YellowCardTimes := YellowCardTimes (sampleHeap 0),
                                      TimeoutTimeLeft := TimeoutTimeLeft (sampleHeap 0)\<rparr>))
                      (1 := ((freshHeap(0 := (freshHeap 0)\<lparr>YellowCardTimes := YellowCardTimes (sampleHeap 0),
                                      TimeoutTimeLeft := TimeoutTimeLeft (sampleHeap 0)\<rparr>)) 1)
                               \<lparr>YellowCardTimes := YellowCardTimes (sampleHeap 1),
                                TimeoutTimeLeft := TimeoutTimeLeft (sampleHeap 1)\<rparr>)"
  have h: "h 0 = sampleHeap 0" "h 1 = sampleHeap 1"
    by (simp_all add: h_def sampleHeap_def freshHeap_def)
  have s: "?t\<lparr>GameState := GameState ?s, StageTimeElapsed := StageTimeElapsed ?s,
                      StageTimeLeft := StageTimeLeft ?s, MatchDuration := MatchDuration ?s\<rparr> = ?s"
    by (simp add: sampleState_def)
  have "sampleSnapshot = bs" by (simp add: sampleSnapshot_def bs(1))
  moreover have "length bs = 707" by (simp add: bs(3) sampleHeap_def)
  moreover from bs(4) have "sampleDecode bs freshHeap ?t = Some (h, ?s)"
    by (simp only: s h_def)
  ultimately show ?thesis using bs(2) h by blast
qed

lemma SaveLatestState_file:
  assumes "SaveLatestState cd r w = Inr w1"
    and "json_MarshalIndent cd (heap w) (State (ctrls w r)) = Some bs"
    and "\<not> writeAtFails (faults w)"
    and "lastStateFile (ctrls w r) = Some f"
  shows "files w1 (fname f) = bs" and "heap w1 = heap w" and "ctrls w1 = ctrls w"
  using assms
  by (auto simp: SaveLatestState_def file_Truncate0_def file_WriteAt0_def file_Sync_def emit_def
      split: if_splits)




lemma decDurationP_enc: "decDurationP (encDuration x @ r) = Some (x, r)"
  by (simp add: decDurationP_def length_encDuration decDuration_encDuration)

lemma length_encString: "length (encString s) = 64 + length s"
  by (simp add: encString_def length_encDuration)

lemma decStringP_enc:
  assumes "length s < 2 ^ 64"
  shows "decStringP (encString s @ r) = Some (s, r)"
proof -
  have "unat (word_of_nat (length s) :: Duration) = length s"
    using assms by (simp add: unat_of_nat)
  then show ?thesis
    by (simp add: decStringP_def encString_def decDurationP_enc)
qed

lemma decCardsP_enc: "decCardsP (length cs) (concat (map encDuration cs) @ r) = Some (cs, r)"
  by (induction cs) (simp_all add: decDurationP_enc)

lemma length_encInfo: "length (encInfo ti) = 128 + 64 * length (YellowCardTimes ti)"
  by (simp add: encInfo_def length_encDuration length_encCards)

lemma decInfoP_enc:
  assumes "length (YellowCardTimes ti) < 2 ^ 64"
  shows "decInfoP (encInfo ti @ r) = Some (ti, r)"
proof -
  have "unat (word_of_nat (length (YellowCardTimes ti)) :: Duration) = length (YellowCardTimes ti)"
    using assms by (simp add: unat_of_nat)
  then show ?thesis
    by (simp add: decInfoP_def encInfo_def decDurationP_enc decCardsP_enc)
qed

lemma length_encEntry_ge:
  "length (fst e) < length (encEntry e)"
  "(case snd e of None \<Rightarrow> 0 | Some ti \<Rightarrow> length (YellowCardTimes ti)) < length (encEntry e)"
  by (auto simp: encEntry_def length_encString length_encInfo split: option.splits)

lemma decEntryP_enc:
  assumes "length (encEntry e) < 2 ^ 64"
  shows "decEntryP (encEntry e @ r) = Some (e, r)"
proof -
  obtain t p where e: "e = (t, p)" by (cases e)
  from assms length_encEntry_ge(1) [of e] have t: "length t < 2 ^ 64"
    by (simp add: e)
  show ?thesis
  proof (cases p)
    case None
    with t show ?thesis
      by (simp add: e decEntryP_def encEntry_def decStringP_enc)
  next
    case (Some ti)
    with assms length_encEntry_ge(2) [of e] have "length (YellowCardTimes ti) < 2 ^ 64"
      by (simp add: e)
    with t Some show ?thesis
      by (simp add: e decEntryP_def encEntry_def decStringP_enc decInfoP_enc)
  qed
qed

lemma length_encEntries_ge:
  "e \<in> set xs \<Longrightarrow> length (encEntry e) \<le> length (concat (map encEntry xs))"
  by (induction xs) auto

lemma length_encEntries_count: "length xs \<le> length (concat (map encEntry xs))"
proof (induction xs)
  case Nil
  then show ?case by simp
next
  case (Cons x xs)
  have "1 \<le> length (encEntry x)" using length_encEntry_ge(1) [of x] by linarith
  moreover have "length (concat (map encEntry (x # xs))) =
      length (encEntry x) + length (concat (map encEntry xs))"
    by simp
  moreover have "length (x # xs) = 1 + length xs" by simp
  ultimately show ?case using Cons by linarith
qed

lemma decEntriesP_enc:
  assumes "length (concat (map encEntry xs)) < 2 ^ 64"
  shows "decEntriesP (length xs) (concat (map encEntry xs) @ r) = Some (xs, r)"
  using assms
proof (induction xs)
  case Nil
  then show ?case by simp
next
  case (Cons x xs)
  then have "length (encEntry x) < 2 ^ 64" and "length (concat (map encEntry xs)) < 2 ^ 64"
    by simp_all
  with Cons.IH show ?case by (simp add: decEntryP_enc)
qed

lemma decRunModeP_enc:
  assumes "length (encRunMode g) < 2 ^ 64"
  shows "decRunModeP (encRunMode g @ r) = Some (g, r)"
proof (cases g)
  case (GameStateOther n)
  with assms have "length n < 2 ^ 64" by (simp add: encRunMode_def length_encString)
  with GameStateOther show ?thesis
    by (simp add: encRunMode_def decRunModeP_def decStringP_enc)
qed (simp_all add: encRunMode_def decRunModeP_def)

lemma decTeamOptP_enc:
  assumes "length (encTeamOpt f) < 2 ^ 64"
  shows "decTeamOptP (encTeamOpt f @ r) = Some (f, r)"
proof (cases f)
  case None
  then show ?thesis by (simp add: encTeamOpt_def decTeamOptP_def)
next
  case (Some t)
  with assms have "length t < 2 ^ 64" by (simp add: encTeamOpt_def length_encString)
  with Some show ?thesis
    by (simp add: encTeamOpt_def decTeamOptP_def decStringP_enc)
qed

lemma place_deep:
  "place xs n h = (es, h1) \<Longrightarrow>
     map (\<lambda>(t, p). (t, map_option h1 p)) es = xs \<and> (\<forall>k<n. h1 k = h k)"
proof (induction xs arbitrary: n h es h1)
  case Nil
  then show ?case by simp
next
  case (Cons x xs)
  obtain t p where x: "x = (t, p)" by (cases x)
  show ?case
  proof (cases p)
    case None
    with Cons.prems x obtain es' where p: "place xs n h = (es', h1)" and es: "es = (t, None) # es'"
      by (auto split: prod.splits)
    from Cons.IH [OF p] es x None show ?thesis by simp
  next
    case (Some ti)
    with Cons.prems x obtain es' where p: "place xs (Suc n) (h(n := ti)) = (es', h1)"
      and es: "es = (t, Some n) # es'"
      by (auto split: prod.splits)
    from Cons.IH [OF p] have 1: "map (\<lambda>(t, p). (t, map_option h1 p)) es' = xs"
      and 2: "\<forall>k<Suc n. h1 k = (h(n := ti)) k"
      by simp_all
    from 2 have "h1 n = ti" and "\<forall>k<n. h1 k = h k" by simp_all
    with 1 es x Some show ?thesis by simp
  qed
qed

lemma snapDecode_snapEncode:
  assumes enc: "snapEncode h s = Some bs" and len: "length bs < 2 ^ 64"
  shows "\<exists>h1 s1. snapDecode bs h0 s0 = Some (h1, s1) \<and> deepState h1 s1 = deepState h s"
proof -
  let ?xs = "map (\<lambda>e. (fst e, map_option h (snd e))) (TeamState s)"
  let ?E = "concat (map encEntry ?xs)"
  have bs: "bs = encRunMode (GameState s) @ encTeamOpt (GameStateFor s)
             @ encDuration (StageTimeElapsed s) @ encDuration (StageTimeLeft s)
             @ encDuration (MatchDuration s) @ encDuration (word_of_nat (length ?xs))
             @ ?E @ []"
    using enc by (simp add: snapEncode_def comp_def)
  from len have l1: "length (encRunMode (GameState s)) < 2 ^ 64"
    and l2: "length (encTeamOpt (GameStateFor s)) < 2 ^ 64"
    and l3: "length ?E < 2 ^ 64"
    unfolding bs by simp_all
  from l3 length_encEntries_count [of ?xs] have "length ?xs < 2 ^ 64" by simp
  then have n: "unat (word_of_nat (length ?xs) :: Duration) = length ?xs"
    by (simp add: unat_of_nat)
  obtain es h1 where p: "place ?xs (freshAddr (TeamState s0)) h0 = (es, h1)"
    by (cases "place ?xs (freshAddr (TeamState s0)) h0")
  from place_deep [OF p] have d: "map (\<lambda>(t, p). (t, map_option h1 p)) es = ?xs"
    by simp
  have "snapDecode bs h0 s0 =
      Some (h1, \<lparr>GameState = GameState s, GameStateFor = GameStateFor s,
                 StageTimeElapsed = StageTimeElapsed s, StageTimeLeft = StageTimeLeft s,
                 MatchDuration = MatchDuration s, TeamState = es\<rparr>)"
    unfolding bs snapDecode_def
    by (simp only: decRunModeP_enc [OF l1] decTeamOptP_enc [OF l2] decDurationP_enc n
        decEntriesP_enc [OF l3] p option.case prod.case if_False simp_thms)
  moreover have "deepState h1 \<lparr>GameState = GameState s, GameStateFor = GameStateFor s,
                 StageTimeElapsed = StageTimeElapsed s, StageTimeLeft = StageTimeLeft s,
                 MatchDuration = MatchDuration s, TeamState = es\<rparr> = deepState h s"
    by (simp add: deepState_def d case_prod_beta)
  ultimately show ?thesis by blast
qed

lemma snapEncode_nonempty: "snapEncode h s = Some bs \<Longrightarrow> bs \<noteq> []"
  by (auto simp: snapEncode_def encRunMode_def split: GameState.splits)

lemma length_snapEncode_sample:
  assumes "TeamState s = [(''Yellow'', Some 0), (''Blue'', Some 1)]" and "GameState s = GameStateRunning"
    and "GameStateFor s = None" and "snapEncode h s = Some bs"
  shows "length bs = 654 + 64 * (length (YellowCardTimes (h 0)) + length (YellowCardTimes (h 1)))"
  using assms
  by (auto simp: snapEncode_def encRunMode_def encTeamOpt_def encEntry_def length_encString
      length_encInfo length_encDuration)

lemma SaveState_fatal:
  assumes "json_MarshalIndent cd (heap w) (State (ctrls w q)) = Some js"
    and "lastStateFile (ctrls w q) = None \<or> truncateFails (faults w)"
  shows "SaveState cd q w = Inl (Fatal ''Can not truncate last state file'')"
  using assms
  by (auto simp: SaveState_def SaveLatestState_def file_Truncate0_def split: option.splits)

lemma SaveLatestState_effects:
  assumes "\<not> (\<exists>js. json_MarshalIndent cd (heap w) (State (ctrls w q)) = Some js \<and>
               (lastStateFile (ctrls w q) = None \<or> truncateFails (faults w)))"
  shows "\<exists>w1. SaveLatestState cd q w = Inr w1 \<and> ctrls w1 = ctrls w \<and> heap w1 = heap w \<and>
           RefBox w1 = RefBox w \<and> faults w1 = faults w \<and>
           trace w1 = trace w @
             (case json_MarshalIndent cd (heap w) (State (ctrls w q)) of
                None \<Rightarrow> [LogPrint ''Can not marshal state'']
              | Some js \<Rightarrow>
                  (case lastStateFile (ctrls w q) of
                     None \<Rightarrow> []
                   | Some f \<Rightarrow>
                       [FileTruncate (fname f),
                        if writeAtFails (faults w) then LogPrint ''Could not write last state''
                        else FileWriteAt (fname f) js,
                        FileSync (fname f)]))"
  using assms
  by (auto simp: SaveLatestState_def file_Truncate0_def file_WriteAt0_def file_Sync_def emit_def
      split: option.splits)

lemma SaveStateHistory_effects:
  "ctrls (SaveStateHistory cd q w) =
     (ctrls w)(q := (ctrls w q)\<lparr>StateHistory := StateHistory (ctrls w q) @ [State (ctrls w q)]\<rparr>) \<and>
   heap (SaveStateHistory cd q w) = heap w \<and> RefBox (SaveStateHistory cd q w) = RefBox w \<and>
   faults (SaveStateHistory cd q w) = faults w \<and>
   trace (SaveStateHistory cd q w) = trace w @
     (case json_Marshal cd (heap w) (State (ctrls w q)) of
        None \<Rightarrow> [LogPrint ''Can not marshal state'']
      | Some jh \<Rightarrow>
          (case stateHistoryFile (ctrls w q) of
             None \<Rightarrow> []
           | Some g \<Rightarrow>
               [FileAppend (fname g) jh, FileAppend (fname g) [CHR 0x0A], FileSync (fname g)]))"
  by (auto simp: SaveStateHistory_def Let_def file_Append_def file_Sync_def emit_def setCtrl_def
      split: option.splits)

lemma SaveState_effects:
  assumes "\<not> (\<exists>js. json_MarshalIndent cd (heap w) (State (ctrls w q)) = Some js \<and>
               (lastStateFile (ctrls w q) = None \<or> truncateFails (faults w)))"
  shows "\<exists>w2. SaveState cd q w = Inr w2 \<and>
           ctrls w2 = (ctrls w)(q := (ctrls w q)
             \<lparr>StateHistory := StateHistory (ctrls w q) @ [State (ctrls w q)]\<rparr>) \<and>
           heap w2 = heap w \<and> RefBox w2 = RefBox w \<and> faults w2 = faults w \<and>
           trace w2 = trace w @
             (case json_MarshalIndent cd (heap w) (State (ctrls w q)) of
                None \<Rightarrow> [LogPrint ''Can not marshal state'']
              | Some js \<Rightarrow>
                  (case lastStateFile (ctrls w q) of
                     None \<Rightarrow> []
                   | Some f \<Rightarrow>
                       [FileTruncate (fname f),
                        if writeAtFails (faults w) then LogPrint ''Could not write last state''
                        else FileWriteAt (fname f) js,
                        FileSync (fname f)])) @
             (case json_Marshal cd (heap w) (State (ctrls w q)) of
                None \<Rightarrow> [LogPrint ''Can not marshal state'']
              | Some jh \<Rightarrow>
                  (case stateHistoryFile (ctrls w q) of
                     None \<Rightarrow> []
                   | Some g \<Rightarrow>
                       [FileAppend (fname g) jh, FileAppend (fname g) [CHR 0x0A],
                        FileSync (fname g)]))"
proof -
  from SaveLatestState_effects [OF assms] obtain w1 where
    1: "SaveLatestState cd q w = Inr w1" "ctrls w1 = ctrls w" "heap w1 = heap w"
      "RefBox w1 = RefBox w" "faults w1 = faults w"
    and t: "trace w1 = trace w @
             (case json_MarshalIndent cd (heap w) (State (ctrls w q)) of
                None \<Rightarrow> [LogPrint ''Can not marshal state'']
              | Some js \<Rightarrow>
                  (case lastStateFile (ctrls w q) of
                     None \<Rightarrow> []
                   | Some f \<Rightarrow>
                       [FileTruncate (fname f),
                        if writeAtFails (faults w) then LogPrint ''Could not write last state''
                        else FileWriteAt (fname f) js,
                        FileSync (fname f)]))"
    by blast
  have "SaveState cd q w = Inr (SaveStateHistory cd q w1)"
    by (simp add: SaveState_def 1(1))
  with SaveStateHistory_effects [of cd q w1] show ?thesis
    by (simp add: 1 t cong: option.case_cong)
qed

lemma Publish_effects:
  assumes "lastStateFile (ctrls w (RefBox w)) \<noteq> None" and "\<not> truncateFails (faults w)"
  shows "\<exists>w2. Publish cd r (Some c) w = Inr w2 \<and>
           ctrls w2 = (ctrls w)(RefBox w := (ctrls w (RefBox w))
             \<lparr>StateHistory := StateHistory (ctrls w (RefBox w)) @ [State (ctrls w (RefBox w))]\<rparr>) \<and>
           heap w2 = heap w \<and> RefBox w2 = RefBox w \<and> faults w2 = faults w"
proof -
  from assms have "\<not> (\<exists>js. json_MarshalIndent cd (heap w) (State (ctrls w (RefBox w))) = Some js \<and>
               (lastStateFile (ctrls w (RefBox w)) = None \<or> truncateFails (faults w)))"
    by simp
  from SaveState_effects [OF this] obtain w1 where
    "SaveState cd (RefBox w) w = Inr w1"
    "ctrls w1 = (ctrls w)(RefBox w := (ctrls w (RefBox w))
             \<lparr>StateHistory := StateHistory (ctrls w (RefBox w)) @ [State (ctrls w (RefBox w))]\<rparr>)"
    "heap w1 = heap w" "RefBox w1 = RefBox w" "faults w1 = faults w"
    by blast
  then show ?thesis by (simp add: Publish_command)
qed

text \<open>
  Claim C6 does not hold of the code: a Running tick modifies what the history holds.
  \<^verbatim>\<open>SaveStateHistory\<close> appends a copy of the State record, whose map still points to the
  TeamInfo objects of the live state, and \<^verbatim>\<open>updateTimes\<close> changes these objects in place.
  In the sample run the event \<open>start\<close> is committed while Yellow has four yellow cards
  (1 s, 120 s, 0.5 s and 3 s left), and the history entry shows these four cards. A tick of
  1 s returns and leaves the history the same list of State records, yet the entry now
  shows two cards (119 s and 2 s left). After a second commit, \<^verbatim>\<open>UndoLastAction\<close> restores
  the State committed first, with its clock (600 s left, nothing elapsed), together with the
  cards as they were after the tick, not as they were at the commit.
\<close>

theorem Tick_Running_rewrites_history_entries:
  "\<not> isl (OnNewEvent sampleProcessEvent sampleCodec 0 \<lparr>Command = Some ''start''\<rparr>
       (sampleWorld (sampleCtrl (sampleState GameStateHalted None 600000000000) [] 0)
          (sampleCtrl (sampleState GameStateHalted None 0) [] 0))) \<and>
   StateHistory (ctrls committedRun 0) = [sampleState GameStateRunning None 600000000000] \<and>
   map (\<lambda>s. snd (deepState (heap committedRun) s)) (StateHistory (ctrls committedRun 0)) =
     [[(''Yellow'', Some \<lparr>YellowCardTimes = [1000000000, 120000000000, 500000000, 3000000000],
                          TimeoutTimeLeft = 300000000000\<rparr>),
       (''Blue'', Some \<lparr>YellowCardTimes = [], TimeoutTimeLeft = 300000000000\<rparr>)]] \<and>
   \<not> isl (Tick 0 1000000000 0 committedRun) \<and>
   StateHistory (ctrls tickedRun 0) = [sampleState GameStateRunning None 600000000000] \<and>
   map (\<lambda>s. snd (deepState (heap tickedRun) s)) (StateHistory (ctrls tickedRun 0)) =
     [[(''Yellow'', Some \<lparr>YellowCardTimes = [119000000000, 2000000000],
                          TimeoutTimeLeft = 300000000000\<rparr>),
       (''Blue'', Some \<lparr>YellowCardTimes = [], TimeoutTimeLeft = 300000000000\<rparr>)]] \<and>
   \<not> isl (OnNewEvent sampleProcessEvent sampleCodec 0 \<lparr>Command = Some ''halt''\<rparr> tickedRun) \<and>
   length (StateHistory (ctrls recommittedRun 0)) = 2 \<and>
   State (ctrls undoneRun 0) = sampleState GameStateRunning None 600000000000 \<and>
   snd (deepState (heap undoneRun) (State (ctrls undoneRun 0))) =
     [(''Yellow'', Some \<lparr>YellowCardTimes = [119000000000, 2000000000],
                         TimeoutTimeLeft = 300000000000\<rparr>),
      (''Blue'', Some \<lparr>YellowCardTimes = [], TimeoutTimeLeft = 300000000000\<rparr>)]"
proof -
  define sr where "sr = sampleState GameStateRunning None 600000000000"
  define u where "u = sampleWorld (sampleCtrl (sampleState GameStateHalted None 600000000000) [] 0)
          (sampleCtrl (sampleState GameStateHalted None 0) [] 0)"
  define u1 where "u1 = setCtrl 0 ((ctrls u 0)\<lparr>State := sr\<rparr>) u"
  have p: "sampleProcessEvent \<lparr>Command = Some ''start''\<rparr> u =
              (\<lparr>Command = Some ''start''\<rparr>, None, u1)"
    by (simp add: sampleProcessEvent_def u_def u1_def sr_def sampleWorld_def sampleCtrl_def
        sampleState_def)
  have v1: "RefBox u1 = 0" "State (ctrls u1 0) = sr" "StateHistory (ctrls u1 0) = []"
    "lastStateFile (ctrls u1 0) \<noteq> None" "\<not> truncateFails (faults u1)"
    "heap u1 = sampleHeap" "MatchTimeStart (ctrls u1 0) = 0"
    by (simp_all add: u1_def u_def setCtrl_def sampleWorld_def sampleCtrl_def noFaults_def)
  have ts: "TeamState sr = [(''Yellow'', Some 0), (''Blue'', Some 1)]"
    "GameState sr = GameStateRunning"
    by (simp_all add: sr_def sampleState_def)
  from Publish_effects [of u1 sampleCodec 0 "''start''"] v1
  obtain w1 where w1: "Publish sampleCodec 0 (Some ''start'') u1 = Inr w1"
    and c1: "ctrls w1 = (ctrls u1)(0 := (ctrls u1 0)\<lparr>StateHistory := [sr]\<rparr>)"
    and h1: "heap w1 = sampleHeap" "RefBox w1 = 0" "faults w1 = faults u1"
    by auto
  have e1: "OnNewEvent sampleProcessEvent sampleCodec 0 \<lparr>Command = Some ''start''\<rparr> u = Inr w1"
    by (simp add: OnNewEvent_def p w1)
  then have cr: "committedRun = w1"
    by (simp add: committedRun_def u_def)
  have s1: "State (ctrls w1 0) = sr" "StateHistory (ctrls w1 0) = [sr]"
    "MatchTimeStart (ctrls w1 0) = 0" "lastStateFile (ctrls w1 0) \<noteq> None"
    by (simp_all add: c1 v1)
  define h2 where "h2 = (sampleHeap
          (0 := removeElapsedYellowCards (reduceYellowCardTimes (sampleHeap 0) 1000000000)))
          (1 := removeElapsedYellowCards (reduceYellowCardTimes (sampleHeap 1) 1000000000))"
  define st where "st = sr\<lparr>StageTimeElapsed := StageTimeElapsed sr + 1000000000,
                   StageTimeLeft := StageTimeLeft sr - 1000000000,
                   MatchDuration := MatchDuration sr\<rparr>"
  define w2 where "w2 = (setCtrl 0 ((ctrls w1 0)\<lparr>State := st\<rparr>) w1)\<lparr>heap := h2\<rparr>"
  have r1: "GameState (State (ctrls w1 0)) = GameStateRunning"
    by (simp add: s1 ts)
  have t2: "Tick 0 1000000000 0 w1 = Inr w2"
    by (simp add: Tick_Running [OF r1] s1 ts h1 w2_def st_def h2_def time_After_def
        time_Unix_0_0_def)
  then have tr: "tickedRun = w2"
    by (simp add: tickedRun_def cr)
  have hy: "h2 0 = \<lparr>YellowCardTimes = [119000000000, 2000000000],
                      TimeoutTimeLeft = 300000000000\<rparr>"
    and hb: "h2 1 = \<lparr>YellowCardTimes = [], TimeoutTimeLeft = 300000000000\<rparr>"
    by (simp_all add: h2_def sampleHeap_def removeElapsedYellowCards_def
        reduceYellowCardTimes_def word_sless_alt)
  have s2: "State (ctrls w2 0) = st" "StateHistory (ctrls w2 0) = [sr]" "heap w2 = h2"
    "RefBox w2 = 0" "lastStateFile (ctrls w2 0) \<noteq> None" "\<not> truncateFails (faults w2)"
    by (simp_all add: w2_def setCtrl_def s1 h1 v1)
  have p2: "sampleProcessEvent \<lparr>Command = Some ''halt''\<rparr> w2 =
              (\<lparr>Command = Some ''halt''\<rparr>, None, w2)"
    by (simp add: sampleProcessEvent_def)
  from Publish_effects [of w2 sampleCodec 0 "''halt''"] s2
  obtain w3 where w3: "Publish sampleCodec 0 (Some ''halt'') w2 = Inr w3"
    and c3: "ctrls w3 = (ctrls w2)(0 := (ctrls w2 0)\<lparr>StateHistory := [sr, st]\<rparr>)"
    and h3: "heap w3 = h2"
    by auto
  have e3: "OnNewEvent sampleProcessEvent sampleCodec 0 \<lparr>Command = Some ''halt''\<rparr> w2 = Inr w3"
    by (simp add: OnNewEvent_def p2 w3)
  then have rr: "recommittedRun = w3"
    by (simp add: recommittedRun_def tr)
  have s3: "StateHistory (ctrls w3 0) = [sr, st]"
    by (simp add: c3)
  have ur: "State (ctrls undoneRun 0) = sr" "heap undoneRun = h2"
    by (simp_all add: undoneRun_def rr UndoLastAction_def Let_def s3 setCtrl_def h3)
  have d: "snd (deepState h sr) = [(''Yellow'', Some (h 0)), (''Blue'', Some (h 1))]"
    for h :: "addr \<Rightarrow> TeamInfo"
    by (simp add: deepState_def ts)
  have hs: "sampleHeap 0 = \<lparr>YellowCardTimes = [1000000000, 120000000000, 500000000, 3000000000],
                          TimeoutTimeLeft = 300000000000\<rparr>"
    "sampleHeap 1 = \<lparr>YellowCardTimes = [], TimeoutTimeLeft = 300000000000\<rparr>"
    by (simp_all add: sampleHeap_def)
  show ?thesis
    unfolding cr tr rr ur
    by (simp only: e1 [unfolded u_def] t2 e3 s1 s2 s3 h1 d hy hb hs sr_def [symmetric]
        sum.disc list.map list.size) simp
qed

text \<open>
  Claim C2, as amended. Let the rules engine return the event \<open>event1\<close>, the error
  \<open>err\<close> and the world \<open>w1\<close>. If it rejects the event, \<^verbatim>\<open>OnNewEvent\<close> adds one log line
  to \<open>w1\<close> and nothing else: no state change, no history entry, no write, no publish. If it
  accepts and the resulting command is nil, \<^verbatim>\<open>OnNewEvent\<close> publishes once, with the nil
  command, and writes nothing and appends nothing. If it accepts and the resulting command is
  not nil, there are two cases. When the indented encoding succeeds and the snapshot file
  cannot be truncated (its handle is nil or the truncation fails), \<^verbatim>\<open>OnNewEvent\<close> is fatal:
  no history entry, no audit record, no publish. In every other case it returns, the
  history of the singleton grows by exactly its current state, nothing else changes in the
  controllers and in the store, and the effects are, in this order: the snapshot write
  (truncate, write, sync; a log line in place of the write when the write fails; one log
  line in place of all three when the indented encoding fails), the audit-log append
  (record, newline, sync; one log line when the compact encoding fails; nothing when the
  audit handle is nil), and one publish carrying the command. In particular, when both
  encodings succeed, both files are open and neither the truncation nor the write fails,
  the effects are one snapshot write, one audit-log append and one publish.
\<close>

theorem OnNewEvent_commit_publish:
  assumes "pe event w = (event1, err, w1)"
  shows "(err \<noteq> None \<longrightarrow>
            (\<exists>msg. OnNewEvent pe cd r event w = Inr (w1\<lparr>trace := trace w1 @ [LogPrint msg]\<rparr>))) \<and>
         (err = None \<and> Command event1 = None \<longrightarrow>
            OnNewEvent pe cd r event w =
              Inr (w1\<lparr>trace := trace w1 @
                [ApiServerPublishState (ApiServer (ctrls w1 r)) (State (ctrls w1 (RefBox w1))),
                 PublisherPublish (Publisher (ctrls w1 (RefBox w1)))
                   (State (ctrls w1 (RefBox w1))) None]\<rparr>)) \<and>
         (\<forall>c js jh f g.
            err = None \<and> Command event1 = Some c \<and>
            json_MarshalIndent cd (heap w1) (State (ctrls w1 (RefBox w1))) = Some js \<and>
            json_Marshal cd (heap w1) (State (ctrls w1 (RefBox w1))) = Some jh \<and>
            lastStateFile (ctrls w1 (RefBox w1)) = Some f \<and>
            stateHistoryFile (ctrls w1 (RefBox w1)) = Some g \<and>
            \<not> truncateFails (faults w1) \<and> \<not> writeAtFails (faults w1) \<longrightarrow>
            (\<exists>w2. OnNewEvent pe cd r event w = Inr w2 \<and>
                trace w2 = trace w1 @
                  [FileTruncate (fname f), FileWriteAt (fname f) js, FileSync (fname f),
                   FileAppend (fname g) jh, FileAppend (fname g) [CHR 0x0A], FileSync (fname g),
                   ApiServerPublishState (ApiServer (ctrls w1 r)) (State (ctrls w1 (RefBox w1))),
                   PublisherPublish (Publisher (ctrls w1 (RefBox w1)))
                     (State (ctrls w1 (RefBox w1))) (Some c)] \<and>
                StateHistory (ctrls w2 (RefBox w1)) =
                  StateHistory (ctrls w1 (RefBox w1)) @ [State (ctrls w1 (RefBox w1))] \<and>
                State (ctrls w2 (RefBox w1)) = State (ctrls w1 (RefBox w1)) \<and>
                heap w2 = heap w1 \<and> RefBox w2 = RefBox w1 \<and>
                (\<forall>r'. r' \<noteq> RefBox w1 \<longrightarrow> ctrls w2 r' = ctrls w1 r'))) \<and>
         (\<forall>c. err = None \<and> Command event1 = Some c \<and>
            json_MarshalIndent cd (heap w1) (State (ctrls w1 (RefBox w1))) \<noteq> None \<and>
            (lastStateFile (ctrls w1 (RefBox w1)) = None \<or> truncateFails (faults w1)) \<longrightarrow>
            OnNewEvent pe cd r event w = Inl (Fatal ''Can not truncate last state file'')) \<and>
         (\<forall>c. err = None \<and> Command event1 = Some c \<and>
            (json_MarshalIndent cd (heap w1) (State (ctrls w1 (RefBox w1))) = None \<or>
             lastStateFile (ctrls w1 (RefBox w1)) \<noteq> None \<and> \<not> truncateFails (faults w1)) \<longrightarrow>
            (\<exists>w2. OnNewEvent pe cd r event w = Inr w2 \<and>
                trace w2 = trace w1 @
                  (case json_MarshalIndent cd (heap w1) (State (ctrls w1 (RefBox w1))) of
                     None \<Rightarrow> [LogPrint ''Can not marshal state'']
                   | Some js \<Rightarrow>
                       (case lastStateFile (ctrls w1 (RefBox w1)) of
                          None \<Rightarrow> []
                        | Some f \<Rightarrow>
                            [FileTruncate (fname f),
                             if writeAtFails (faults w1)
                             then LogPrint ''Could not write last state''
                             else FileWriteAt (fname f) js,
                             FileSync (fname f)])) @
                  (case json_Marshal cd (heap w1) (State (ctrls w1 (RefBox w1))) of
                     None \<Rightarrow> [LogPrint ''Can not marshal state'']
                   | Some jh \<Rightarrow>
                       (case stateHistoryFile (ctrls w1 (RefBox w1)) of
                          None \<Rightarrow> []
                        | Some g \<Rightarrow>
                            [FileAppend (fname g) jh, FileAppend (fname g) [CHR 0x0A],
                             FileSync (fname g)])) @
                  [ApiServerPublishState (ApiServer (ctrls w1 r)) (State (ctrls w1 (RefBox w1))),
                   PublisherPublish (Publisher (ctrls w1 (RefBox w1)))
                     (State (ctrls w1 (RefBox w1))) (Some c)] \<and>
                ctrls w2 = (ctrls w1)(RefBox w1 := (ctrls w1 (RefBox w1))
                  \<lparr>StateHistory :=
                     StateHistory (ctrls w1 (RefBox w1)) @ [State (ctrls w1 (RefBox w1))]\<rparr>) \<and>
                heap w2 = heap w1 \<and> RefBox w2 = RefBox w1))"
proof (intro conjI impI allI)
  assume "err \<noteq> None"
  then obtain e where "err = Some e" by blast
  with assms have "OnNewEvent pe cd r event w =
      Inr (w1\<lparr>trace := trace w1 @ [LogPrint (''Could not process event: '' @ e)]\<rparr>)"
    by (simp add: OnNewEvent_def emit_def)
  then show "\<exists>msg. OnNewEvent pe cd r event w = Inr (w1\<lparr>trace := trace w1 @ [LogPrint msg]\<rparr>)"
    by blast
next
  assume "err = None \<and> Command event1 = None"
  with assms show "OnNewEvent pe cd r event w =
              Inr (w1\<lparr>trace := trace w1 @
                [ApiServerPublishState (ApiServer (ctrls w1 r)) (State (ctrls w1 (RefBox w1))),
                 PublisherPublish (Publisher (ctrls w1 (RefBox w1)))
                   (State (ctrls w1 (RefBox w1))) None]\<rparr>)"
    by (simp add: OnNewEvent_def Publish_nil)
next
  fix c js jh f g
  assume a: "err = None \<and> Command event1 = Some c \<and>
            json_MarshalIndent cd (heap w1) (State (ctrls w1 (RefBox w1))) = Some js \<and>
            json_Marshal cd (heap w1) (State (ctrls w1 (RefBox w1))) = Some jh \<and>
            lastStateFile (ctrls w1 (RefBox w1)) = Some f \<and>
            stateHistoryFile (ctrls w1 (RefBox w1)) = Some g \<and>
            \<not> truncateFails (faults w1) \<and> \<not> writeAtFails (faults w1)"
  then have s: "SaveState cd (RefBox w1) w1 =
           Inr (w1\<lparr>ctrls := (ctrls w1)(RefBox w1 := (ctrls w1 (RefBox w1))
                    \<lparr>StateHistory := StateHistory (ctrls w1 (RefBox w1)) @ [State (ctrls w1 (RefBox w1))]\<rparr>),
                  files := ((files w1)(fname f := js))
                     (fname g := ((files w1)(fname f := js)) (fname g) @ jh @ [CHR 0x0A]),
                  trace := trace w1 @ [FileTruncate (fname f), FileWriteAt (fname f) js,
                                      FileSync (fname f), FileAppend (fname g) jh,
                                      FileAppend (fname g) [CHR 0x0A], FileSync (fname g)]\<rparr>)"
    by (intro SaveState_ok) simp_all
  from assms a have "OnNewEvent pe cd r event w = Publish cd r (Some c) w1"
    by (simp add: OnNewEvent_def)
  then show "\<exists>w2. OnNewEvent pe cd r event w = Inr w2 \<and>
                trace w2 = trace w1 @
                  [FileTruncate (fname f), FileWriteAt (fname f) js, FileSync (fname f),
                   FileAppend (fname g) jh, FileAppend (fname g) [CHR 0x0A], FileSync (fname g),
                   ApiServerPublishState (ApiServer (ctrls w1 r)) (State (ctrls w1 (RefBox w1))),
                   PublisherPublish (Publisher (ctrls w1 (RefBox w1)))
                     (State (ctrls w1 (RefBox w1))) (Some c)] \<and>
                StateHistory (ctrls w2 (RefBox w1)) =
                  StateHistory (ctrls w1 (RefBox w1)) @ [State (ctrls w1 (RefBox w1))] \<and>
                State (ctrls w2 (RefBox w1)) = State (ctrls w1 (RefBox w1)) \<and>
                heap w2 = heap w1 \<and> RefBox w2 = RefBox w1 \<and>
                (\<forall>r'. r' \<noteq> RefBox w1 \<longrightarrow> ctrls w2 r' = ctrls w1 r')"
    by (simp add: Publish_command s)
next
  fix c
  assume a: "err = None \<and> Command event1 = Some c \<and>
            json_MarshalIndent cd (heap w1) (State (ctrls w1 (RefBox w1))) \<noteq> None \<and>
            (lastStateFile (ctrls w1 (RefBox w1)) = None \<or> truncateFails (faults w1))"
  then obtain js where
    "json_MarshalIndent cd (heap w1) (State (ctrls w1 (RefBox w1))) = Some js" by blast
  from SaveState_fatal [OF this] a
  have "SaveState cd (RefBox w1) w1 = Inl (Fatal ''Can not truncate last state file'')"
    by blast
  with assms a show "OnNewEvent pe cd r event w = Inl (Fatal ''Can not truncate last state file'')"
    by (simp add: OnNewEvent_def Publish_def)
next
  fix c
  assume a: "err = None \<and> Command event1 = Some c \<and>
            (json_MarshalIndent cd (heap w1) (State (ctrls w1 (RefBox w1))) = None \<or>
             lastStateFile (ctrls w1 (RefBox w1)) \<noteq> None \<and> \<not> truncateFails (faults w1))"
  then have "\<not> (\<exists>js. json_MarshalIndent cd (heap w1) (State (ctrls w1 (RefBox w1))) = Some js \<and>
               (lastStateFile (ctrls w1 (RefBox w1)) = None \<or> truncateFails (faults w1)))"
    by auto
  from SaveState_effects [OF this] obtain w2 where
    s: "SaveState cd (RefBox w1) w1 = Inr w2"
    and c2: "ctrls w2 = (ctrls w1)(RefBox w1 := (ctrls w1 (RefBox w1))
             \<lparr>StateHistory := StateHistory (ctrls w1 (RefBox w1)) @ [State (ctrls w1 (RefBox w1))]\<rparr>)"
    and h2: "heap w2 = heap w1" "RefBox w2 = RefBox w1"
    and t2: "trace w2 = trace w1 @
                  (case json_MarshalIndent cd (heap w1) (State (ctrls w1 (RefBox w1))) of
                     None \<Rightarrow> [LogPrint ''Can not marshal state'']
                   | Some js \<Rightarrow>
                       (case lastStateFile (ctrls w1 (RefBox w1)) of
                          None \<Rightarrow> []
                        | Some f \<Rightarrow>
                            [FileTruncate (fname f),
                             if writeAtFails (faults w1)
                             then LogPrint ''Could not write last state''
                             else FileWriteAt (fname f) js,
                             FileSync (fname f)])) @
                  (case json_Marshal cd (heap w1) (State (ctrls w1 (RefBox w1))) of
                     None \<Rightarrow> [LogPrint ''Can not marshal state'']
                   | Some jh \<Rightarrow>
                       (case stateHistoryFile (ctrls w1 (RefBox w1)) of
                          None \<Rightarrow> []
                        | Some g \<Rightarrow>
                            [FileAppend (fname g) jh, FileAppend (fname g) [CHR 0x0A],
                             FileSync (fname g)]))"
    by blast
  from assms a have "OnNewEvent pe cd r event w = Publish cd r (Some c) w1"
    by (simp add: OnNewEvent_def)
  also have "\<dots> = Inr (emit (PublisherPublish (Publisher (ctrls w2 (RefBox w2)))
                       (State (ctrls w2 (RefBox w2))) (Some c))
                (emit (ApiServerPublishState (ApiServer (ctrls w2 r))
                         (State (ctrls w2 (RefBox w2)))) w2))"
    by (simp add: Publish_def s)
  finally have e: "OnNewEvent pe cd r event w =
       Inr (emit (PublisherPublish (Publisher (ctrls w2 (RefBox w2)))
                       (State (ctrls w2 (RefBox w2))) (Some c))
                (emit (ApiServerPublishState (ApiServer (ctrls w2 r))
                         (State (ctrls w2 (RefBox w2)))) w2))" .
  have p: "Publisher (ctrls w2 (RefBox w2)) = Publisher (ctrls w1 (RefBox w1))"
    "State (ctrls w2 (RefBox w2)) = State (ctrls w1 (RefBox w1))"
    "ApiServer (ctrls w2 r) = ApiServer (ctrls w1 r)"
    by (simp_all add: c2 h2)
  show "\<exists>w2. OnNewEvent pe cd r event w = Inr w2 \<and>
                trace w2 = trace w1 @
                  (case json_MarshalIndent cd (heap w1) (State (ctrls w1 (RefBox w1))) of
                     None \<Rightarrow> [LogPrint ''Can not marshal state'']
                   | Some js \<Rightarrow>
                       (case lastStateFile (ctrls w1 (RefBox w1)) of
                          None \<Rightarrow> []
                        | Some f \<Rightarrow>
                            [FileTruncate (fname f),
                             if writeAtFails (faults w1)
                             then LogPrint ''Could not write last state''
                             else FileWriteAt (fname f) js,
                             FileSync (fname f)])) @
                  (case json_Marshal cd (heap w1) (State (ctrls w1 (RefBox w1))) of
                     None \<Rightarrow> [LogPrint ''Can not marshal state'']
                   | Some jh \<Rightarrow>
                       (case stateHistoryFile (ctrls w1 (RefBox w1)) of
                          None \<Rightarrow> []
                        | Some g \<Rightarrow>
                            [FileAppend (fname g) jh, FileAppend (fname g) [CHR 0x0A],
                             FileSync (fname g)])) @
                  [ApiServerPublishState (ApiServer (ctrls w1 r)) (State (ctrls w1 (RefBox w1))),
                   PublisherPublish (Publisher (ctrls w1 (RefBox w1)))
                     (State (ctrls w1 (RefBox w1))) (Some c)] \<and>
                ctrls w2 = (ctrls w1)(RefBox w1 := (ctrls w1 (RefBox w1))
                  \<lparr>StateHistory :=
                     StateHistory (ctrls w1 (RefBox w1)) @ [State (ctrls w1 (RefBox w1))]\<rparr>) \<and>
                heap w2 = heap w1 \<and> RefBox w2 = RefBox w1"
    unfolding e p by (simp add: emit_def c2 h2 t2)
qed

theorem OnNewEvent_commit_publish_witness:
  "(\<exists>msg. OnNewEvent sampleProcessEvent sampleCodec 0 \<lparr>Command = Some ''bogus''\<rparr>
       (sampleWorld (sampleCtrl (sampleState GameStateHalted None 600000000000) [] 0)
          (sampleCtrl (sampleState GameStateHalted None 0) [] 0)) =
     Inr ((sampleWorld (sampleCtrl (sampleState GameStateHalted None 600000000000) [] 0)
          (sampleCtrl (sampleState GameStateHalted None 0) [] 0))\<lparr>trace := [LogPrint msg]\<rparr>)) \<and>
   OnNewEvent sampleProcessEvent sampleCodec 0 \<lparr>Command = None\<rparr>
     (sampleWorld (sampleCtrl (sampleState GameStateHalted None 600000000000) [] 0)
        (sampleCtrl (sampleState GameStateHalted None 0) [] 0)) =
     Inr ((sampleWorld (sampleCtrl (sampleState GameStateHalted None 600000000000) [] 0)
        (sampleCtrl (sampleState GameStateHalted None 0) [] 0))
          \<lparr>trace := [ApiServerPublishState 0 (sampleState GameStateHalted None 600000000000),
                     PublisherPublish 0 (sampleState GameStateHalted None 600000000000) None]\<rparr>) \<and>
   (\<exists>w2 js jh. OnNewEvent sampleProcessEvent sampleCodec 0 \<lparr>Command = Some ''start''\<rparr>
       (sampleWorld (sampleCtrl (sampleState GameStateHalted None 600000000000) [] 0)
          (sampleCtrl (sampleState GameStateHalted None 0) [] 0)) = Inr w2 \<and>
      trace w2 =
        [FileTruncate ''logs/lastState.json'', FileWriteAt ''logs/lastState.json'' js,
         FileSync ''logs/lastState.json'', FileAppend ''logs/state-history.log'' jh,
         FileAppend ''logs/state-history.log'' [CHR 0x0A], FileSync ''logs/state-history.log'',
         ApiServerPublishState 0 (sampleState GameStateRunning None 600000000000),
         PublisherPublish 0 (sampleState GameStateRunning None 600000000000) (Some ''start'')] \<and>
      StateHistory (ctrls w2 0) = [sampleState GameStateRunning None 600000000000]) \<and>
   OnNewEvent sampleProcessEvent sampleCodec 0 \<lparr>Command = Some ''start''\<rparr>
     ((sampleWorld (sampleCtrl (sampleState GameStateHalted None 600000000000) [] 0)
        (sampleCtrl (sampleState GameStateHalted None 0) [] 0))
          \<lparr>faults := noFaults\<lparr>truncateFails := True\<rparr>\<rparr>) =
     Inl (Fatal ''Can not truncate last state file'') \<and>
   (\<exists>w2 jh. OnNewEvent sampleProcessEvent sampleCodec 0 \<lparr>Command = Some ''start''\<rparr>
       ((sampleWorld (sampleCtrl (sampleState GameStateHalted None 600000000000) [] 0)
          (sampleCtrl (sampleState GameStateHalted None 0) [] 0))
            \<lparr>faults := noFaults\<lparr>writeAtFails := True\<rparr>\<rparr>) = Inr w2 \<and>
      trace w2 =
        [FileTruncate ''logs/lastState.json'', LogPrint ''Could not write last state'',
         FileSync ''logs/lastState.json'', FileAppend ''logs/state-history.log'' jh,
         FileAppend ''logs/state-history.log'' [CHR 0x0A], FileSync ''logs/state-history.log'',
         ApiServerPublishState 0 (sampleState GameStateRunning None 600000000000),
         PublisherPublish 0 (sampleState GameStateRunning None 600000000000) (Some ''start'')] \<and>
      StateHistory (ctrls w2 0) = [sampleState GameStateRunning None 600000000000])"
proof -
  define u where "u = sampleWorld (sampleCtrl (sampleState GameStateHalted None 600000000000) [] 0)
          (sampleCtrl (sampleState GameStateHalted None 0) [] 0)"
  define u1 where "u1 = setCtrl 0 ((ctrls u 0)\<lparr>State := sampleState GameStateRunning None 600000000000\<rparr>) u"
  define ft where "ft = noFaults\<lparr>truncateFails := True\<rparr>"
  define fw where "fw = noFaults\<lparr>writeAtFails := True\<rparr>"
  have p1: "sampleProcessEvent \<lparr>Command = Some ''bogus''\<rparr> u =
              (\<lparr>Command = Some ''bogus''\<rparr>, Some ''unknown command'', u)"
    and p2: "sampleProcessEvent \<lparr>Command = None\<rparr> u = (\<lparr>Command = None\<rparr>, None, u)"
    and p3: "sampleProcessEvent \<lparr>Command = Some ''start''\<rparr> u =
              (\<lparr>Command = Some ''start''\<rparr>, None, u1)"
    and p4: "sampleProcessEvent \<lparr>Command = Some ''start''\<rparr> (u\<lparr>faults := ft\<rparr>) =
              (\<lparr>Command = Some ''start''\<rparr>, None, u1\<lparr>faults := ft\<rparr>)"
    and p5: "sampleProcessEvent \<lparr>Command = Some ''start''\<rparr> (u\<lparr>faults := fw\<rparr>) =
              (\<lparr>Command = Some ''start''\<rparr>, None, u1\<lparr>faults := fw\<rparr>)"
    by (simp_all add: sampleProcessEvent_def u_def u1_def sampleWorld_def sampleCtrl_def
        sampleState_def setCtrl_def)
  have v: "trace u = []" "RefBox u = 0" "ApiServer (ctrls u 0) = 0" "Publisher (ctrls u 0) = 0"
    "State (ctrls u 0) = sampleState GameStateHalted None 600000000000"
    by (simp_all add: u_def sampleWorld_def sampleCtrl_def)
  have v1: "trace u1 = []" "RefBox u1 = 0" "ApiServer (ctrls u1 0) = 0" "Publisher (ctrls u1 0) = 0"
    "State (ctrls u1 0) = sampleState GameStateRunning None 600000000000"
    "StateHistory (ctrls u1 0) = []"
    "lastStateFile (ctrls u1 0) = Some \<lparr>fname = ''logs/lastState.json'', pos = 0\<rparr>"
    "stateHistoryFile (ctrls u1 0) = Some \<lparr>fname = ''logs/state-history.log'', pos = 0\<rparr>"
    "\<not> truncateFails (faults u1)" "\<not> writeAtFails (faults u1)"
    by (simp_all add: u1_def u_def setCtrl_def sampleWorld_def sampleCtrl_def noFaults_def)
  have vf: "truncateFails ft" "writeAtFails fw" "\<not> truncateFails fw"
    by (simp_all add: ft_def fw_def noFaults_def)
  obtain js where js: "json_MarshalIndent sampleCodec (heap u1) (State (ctrls u1 (RefBox u1))) = Some js"
    by (simp add: v1 sampleCodec_def sampleEncode_def encGameState_def sampleState_def)
  obtain jh where jh: "json_Marshal sampleCodec (heap u1) (State (ctrls u1 (RefBox u1))) = Some jh"
    by (simp add: v1 sampleCodec_def sampleEncode_def encGameState_def sampleState_def)
  from OnNewEvent_commit_publish [where pe = sampleProcessEvent and w = u
      and event = "\<lparr>Command = Some ''bogus''\<rparr>" and cd = sampleCodec and r = 0, OF p1,
      THEN conjunct1]
  have a: "\<exists>msg. OnNewEvent sampleProcessEvent sampleCodec 0 \<lparr>Command = Some ''bogus''\<rparr> u =
     Inr (u\<lparr>trace := [LogPrint msg]\<rparr>)"
    by (simp add: v)
  from OnNewEvent_commit_publish [where pe = sampleProcessEvent and w = u
      and event = "\<lparr>Command = None\<rparr>" and cd = sampleCodec and r = 0, OF p2,
      THEN conjunct2, THEN conjunct1]
  have b: "OnNewEvent sampleProcessEvent sampleCodec 0 \<lparr>Command = None\<rparr> u =
     Inr (u\<lparr>trace := [ApiServerPublishState 0 (sampleState GameStateHalted None 600000000000),
                     PublisherPublish 0 (sampleState GameStateHalted None 600000000000) None]\<rparr>)"
    by (simp add: v)
  from OnNewEvent_commit_publish [where pe = sampleProcessEvent and w = u
      and event = "\<lparr>Command = Some ''start''\<rparr>" and cd = sampleCodec and r = 0, OF p3,
      THEN conjunct2, THEN conjunct2, THEN conjunct1] js jh v1
  have c: "\<exists>w2. OnNewEvent sampleProcessEvent sampleCodec 0 \<lparr>Command = Some ''start''\<rparr> u = Inr w2 \<and>
      trace w2 =
        [FileTruncate ''logs/lastState.json'', FileWriteAt ''logs/lastState.json'' js,
         FileSync ''logs/lastState.json'', FileAppend ''logs/state-history.log'' jh,
         FileAppend ''logs/state-history.log'' [CHR 0x0A], FileSync ''logs/state-history.log'',
         ApiServerPublishState 0 (sampleState GameStateRunning None 600000000000),
         PublisherPublish 0 (sampleState GameStateRunning None 600000000000) (Some ''start'')] \<and>
      StateHistory (ctrls w2 0) = [sampleState GameStateRunning None 600000000000]"
    by simp blast
  from OnNewEvent_commit_publish [where pe = sampleProcessEvent and w = "u\<lparr>faults := ft\<rparr>"
      and event = "\<lparr>Command = Some ''start''\<rparr>" and cd = sampleCodec and r = 0, OF p4,
      THEN conjunct2, THEN conjunct2, THEN conjunct2, THEN conjunct1] js v1 vf
  have d: "OnNewEvent sampleProcessEvent sampleCodec 0 \<lparr>Command = Some ''start''\<rparr>
       (u\<lparr>faults := ft\<rparr>) = Inl (Fatal ''Can not truncate last state file'')"
    by simp
  from OnNewEvent_commit_publish [where pe = sampleProcessEvent and w = "u\<lparr>faults := fw\<rparr>"
      and event = "\<lparr>Command = Some ''start''\<rparr>" and cd = sampleCodec and r = 0, OF p5,
      THEN conjunct2, THEN conjunct2, THEN conjunct2, THEN conjunct2] js jh v1 vf
  have e: "\<exists>w2. OnNewEvent sampleProcessEvent sampleCodec 0 \<lparr>Command = Some ''start''\<rparr>
       (u\<lparr>faults := fw\<rparr>) = Inr w2 \<and>
      trace w2 =
        [FileTruncate ''logs/lastState.json'', LogPrint ''Could not write last state'',
         FileSync ''logs/lastState.json'', FileAppend ''logs/state-history.log'' jh,
         FileAppend ''logs/state-history.log'' [CHR 0x0A], FileSync ''logs/state-history.log'',
         ApiServerPublishState 0 (sampleState GameStateRunning None 600000000000),
         PublisherPublish 0 (sampleState GameStateRunning None 600000000000) (Some ''start'')] \<and>
      StateHistory (ctrls w2 0) = [sampleState GameStateRunning None 600000000000]"
    by simp fastforce
  from a b c d e show ?thesis unfolding u_def ft_def fw_def by blast
qed

text \<open>
  Claim C2 as stated fails twice. The sample rules engine accepts the event whose command
  is nil, and \<^verbatim>\<open>OnNewEvent\<close> then publishes once and leaves files, history and every other
  part of the world as they were, since \<^verbatim>\<open>Publish\<close> saves only when the command is not
  nil. And when the truncation of the snapshot file fails, the accepted event \<open>start\<close> is
  fatal: there is no publish.
\<close>

theorem OnNewEvent_nil_command_counterexample:
  "sampleProcessEvent \<lparr>Command = None\<rparr>
     (sampleWorld (sampleCtrl (sampleState GameStateHalted None 600000000000) [] 0)
        (sampleCtrl (sampleState GameStateHalted None 0) [] 0)) =
     (\<lparr>Command = None\<rparr>, None,
      sampleWorld (sampleCtrl (sampleState GameStateHalted None 600000000000) [] 0)
        (sampleCtrl (sampleState GameStateHalted None 0) [] 0)) \<and>
   OnNewEvent sampleProcessEvent sampleCodec 0 \<lparr>Command = None\<rparr>
     (sampleWorld (sampleCtrl (sampleState GameStateHalted None 600000000000) [] 0)
        (sampleCtrl (sampleState GameStateHalted None 0) [] 0)) =
     Inr ((sampleWorld (sampleCtrl (sampleState GameStateHalted None 600000000000) [] 0)
        (sampleCtrl (sampleState GameStateHalted None 0) [] 0))
          \<lparr>trace := [ApiServerPublishState 0 (sampleState GameStateHalted None 600000000000),
                     PublisherPublish 0 (sampleState GameStateHalted None 600000000000) None]\<rparr>) \<and>
   fst (snd (sampleProcessEvent \<lparr>Command = Some ''start''\<rparr>
     ((sampleWorld (sampleCtrl (sampleState GameStateHalted None 600000000000) [] 0)
        (sampleCtrl (sampleState GameStateHalted None 0) [] 0))
          \<lparr>faults := noFaults\<lparr>truncateFails := True\<rparr>\<rparr>))) = None \<and>
   OnNewEvent sampleProcessEvent sampleCodec 0 \<lparr>Command = Some ''start''\<rparr>
     ((sampleWorld (sampleCtrl (sampleState GameStateHalted None 600000000000) [] 0)
        (sampleCtrl (sampleState GameStateHalted None 0) [] 0))
          \<lparr>faults := noFaults\<lparr>truncateFails := True\<rparr>\<rparr>) =
     Inl (Fatal ''Can not truncate last state file'')"
proof -
  define u where "u = (sampleWorld (sampleCtrl (sampleState GameStateHalted None 600000000000) [] 0)
          (sampleCtrl (sampleState GameStateHalted None 0) [] 0))
            \<lparr>faults := noFaults\<lparr>truncateFails := True\<rparr>\<rparr>"
  define u1 where "u1 = setCtrl 0 ((ctrls u 0)\<lparr>State := sampleState GameStateRunning None 600000000000\<rparr>) u"
  have p: "sampleProcessEvent \<lparr>Command = Some ''start''\<rparr> u =
              (\<lparr>Command = Some ''start''\<rparr>, None, u1)"
    by (simp add: sampleProcessEvent_def u_def u1_def sampleWorld_def sampleCtrl_def
        sampleState_def setCtrl_def)
  have v1: "RefBox u1 = 0" "truncateFails (faults u1)"
    "State (ctrls u1 0) = sampleState GameStateRunning None 600000000000"
    by (simp_all add: u1_def u_def setCtrl_def sampleWorld_def sampleCtrl_def noFaults_def)
  obtain js where js: "json_MarshalIndent sampleCodec (heap u1) (State (ctrls u1 0)) = Some js"
    by (simp add: v1 sampleCodec_def sampleEncode_def encGameState_def sampleState_def)
  have "SaveState sampleCodec 0 u1 = Inl (Fatal ''Can not truncate last state file'')"
    using js v1(2) by (intro SaveState_fatal) simp_all
  then have "OnNewEvent sampleProcessEvent sampleCodec 0 \<lparr>Command = Some ''start''\<rparr> u =
      Inl (Fatal ''Can not truncate last state file'')"
    by (simp add: OnNewEvent_def p Publish_def v1)
  moreover have "fst (snd (sampleProcessEvent \<lparr>Command = Some ''start''\<rparr> u)) = None"
    by (simp add: p)
  moreover have "sampleProcessEvent \<lparr>Command = None\<rparr>
     (sampleWorld (sampleCtrl (sampleState GameStateHalted None 600000000000) [] 0)
        (sampleCtrl (sampleState GameStateHalted None 0) [] 0)) =
     (\<lparr>Command = None\<rparr>, None,
      sampleWorld (sampleCtrl (sampleState GameStateHalted None 600000000000) [] 0)
        (sampleCtrl (sampleState GameStateHalted None 0) [] 0)) \<and>
   OnNewEvent sampleProcessEvent sampleCodec 0 \<lparr>Command = None\<rparr>
     (sampleWorld (sampleCtrl (sampleState GameStateHalted None 600000000000) [] 0)
        (sampleCtrl (sampleState GameStateHalted None 0) [] 0)) =
     Inr ((sampleWorld (sampleCtrl (sampleState GameStateHalted None 600000000000) [] 0)
        (sampleCtrl (sampleState GameStateHalted None 0) [] 0))
          \<lparr>trace := [ApiServerPublishState 0 (sampleState GameStateHalted None 600000000000),
                     PublisherPublish 0 (sampleState GameStateHalted None 600000000000) None]\<rparr>)"
    by (simp add: OnNewEvent_def sampleProcessEvent_def Publish_nil sampleWorld_def sampleCtrl_def)
  ultimately show ?thesis unfolding u_def by blast
qed

text \<open>
  Claim C7. \<^verbatim>\<open>readLastState\<close> is fatal when the read fails (a nil handle or a fault of
  the operating system). When the read succeeds, with \<open>b\<close> the bytes read into the buffer
  of \<open>bufSize = 10000\<close> bytes: no byte read leaves the world as it is; a full buffer is
  fatal; otherwise the bytes are decoded into the State of the controller that \<^verbatim>\<open>RefBox\<close>
  names, a decoding error is fatal, and a decoded State replaces that State, the store
  becomes the decoder's and only the offset of the handle changes besides. From offset 0,
  an empty file is the first case and a file of 10000 bytes or more the second.
\<close>

theorem readLastState_cases:
  "(lastStateFile (ctrls w r) = None \<or> readFails (faults w) \<longrightarrow>
      readLastState cd r w = Inl (Fatal ''Could not read from last state file'')) \<and>
   (\<forall>f b. lastStateFile (ctrls w r) = Some f \<and> \<not> readFails (faults w) \<and>
          b = take bufSize (drop (pos f) (files w (fname f))) \<longrightarrow>
      (b = [] \<longrightarrow> readLastState cd r w = Inr w) \<and>
      (length b = bufSize \<longrightarrow> readLastState cd r w = Inl (Fatal ''Buffer size too small'')) \<and>
      (b \<noteq> [] \<and> length b < bufSize \<and>
       json_Unmarshal cd b (heap w) (State (ctrls w (RefBox w))) = None \<longrightarrow>
         readLastState cd r w = Inl (Fatal ''Could not read last state'')) \<and>
      (\<forall>h s. b \<noteq> [] \<and> length b < bufSize \<and>
         json_Unmarshal cd b (heap w) (State (ctrls w (RefBox w))) = Some (h, s) \<longrightarrow>
         (\<exists>w'. readLastState cd r w = Inr w' \<and> heap w' = h \<and>
               State (ctrls w' (RefBox w)) = s \<and>
               lastStateFile (ctrls w' r) = Some (f\<lparr>pos := pos f + length b\<rparr>) \<and>
               (\<forall>q. q \<noteq> RefBox w \<longrightarrow> State (ctrls w' q) = State (ctrls w q)) \<and>
               (\<forall>q. StateHistory (ctrls w' q) = StateHistory (ctrls w q) \<and>
                    MatchTimeStart (ctrls w' q) = MatchTimeStart (ctrls w q)) \<and>
               RefBox w' = RefBox w \<and> files w' = files w \<and> trace w' = trace w)) \<and>
      (pos f = 0 \<and> files w (fname f) = [] \<longrightarrow> readLastState cd r w = Inr w) \<and>
      (pos f = 0 \<and> bufSize \<le> length (files w (fname f)) \<longrightarrow>
         readLastState cd r w = Inl (Fatal ''Buffer size too small''))) \<and>
   bufSize = 10000"
proof (intro conjI allI impI)
  assume "lastStateFile (ctrls w r) = None \<or> readFails (faults w)"
  then show "readLastState cd r w = Inl (Fatal ''Could not read from last state file'')"
    by (auto simp: readLastState_def file_Read_def split: option.splits)
next
  show "bufSize = 10000" by (simp add: bufSize_def)
next
  fix f b
  assume a: "lastStateFile (ctrls w r) = Some f \<and> \<not> readFails (faults w) \<and>
          b = take bufSize (drop (pos f) (files w (fname f)))"
  then have rd: "readLastState cd r w =
     (let b = take bufSize (drop (pos f) (files w (fname f)));
          w1 = setCtrl r ((ctrls w r)\<lparr>lastStateFile := Some (f\<lparr>pos := pos f + length b\<rparr>)\<rparr>) w
      in if b = [] then Inr w
         else if length b = bufSize then Inl (Fatal ''Buffer size too small'')
         else (case json_Unmarshal cd b (heap w) (State (ctrls w (RefBox w))) of
                 None \<Rightarrow> Inl (Fatal ''Could not read last state'')
               | Some (h, s) \<Rightarrow>
                   Inr ((setCtrl (RefBox w) ((ctrls w1 (RefBox w))\<lparr>State := s\<rparr>) w1)
                          \<lparr>heap := h\<rparr>)))"
    by (simp add: readLastState_read)
  from a have b: "b = take bufSize (drop (pos f) (files w (fname f)))" by simp
  {
    assume "b = []"
    then show "readLastState cd r w = Inr w"
      using b by (simp add: rd Let_def)
  }
  {
    assume "length b = bufSize"
    then have "b \<noteq> []" by (auto simp: bufSize_def)
    with \<open>length b = bufSize\<close> show "readLastState cd r w = Inl (Fatal ''Buffer size too small'')"
      using b by (simp add: rd Let_def)
  }
  {
    assume "b \<noteq> [] \<and> length b < bufSize \<and>
       json_Unmarshal cd b (heap w) (State (ctrls w (RefBox w))) = None"
    then show "readLastState cd r w = Inl (Fatal ''Could not read last state'')"
      using b by (simp add: rd Let_def)
  }
  {
    fix h s
    assume "b \<noteq> [] \<and> length b < bufSize \<and>
         json_Unmarshal cd b (heap w) (State (ctrls w (RefBox w))) = Some (h, s)"
    then have "readLastState cd r w =
        Inr ((setCtrl (RefBox w)
               ((ctrls (setCtrl r ((ctrls w r)\<lparr>lastStateFile := Some (f\<lparr>pos := pos f + length b\<rparr>)\<rparr>) w)
                   (RefBox w))\<lparr>State := s\<rparr>)
               (setCtrl r ((ctrls w r)\<lparr>lastStateFile := Some (f\<lparr>pos := pos f + length b\<rparr>)\<rparr>) w))
             \<lparr>heap := h\<rparr>)"
      using b by (simp add: rd Let_def)
    then show "\<exists>w'. readLastState cd r w = Inr w' \<and> heap w' = h \<and>
               State (ctrls w' (RefBox w)) = s \<and>
               lastStateFile (ctrls w' r) = Some (f\<lparr>pos := pos f + length b\<rparr>) \<and>
               (\<forall>q. q \<noteq> RefBox w \<longrightarrow> State (ctrls w' q) = State (ctrls w q)) \<and>
               (\<forall>q. StateHistory (ctrls w' q) = StateHistory (ctrls w q) \<and>
                    MatchTimeStart (ctrls w' q) = MatchTimeStart (ctrls w q)) \<and>
               RefBox w' = RefBox w \<and> files w' = files w \<and> trace w' = trace w"
      by (simp add: setCtrl_def)
  }
  {
    assume "pos f = 0 \<and> files w (fname f) = []"
    then show "readLastState cd r w = Inr w"
      by (simp add: rd Let_def)
  }
  {
    assume "pos f = 0 \<and> bufSize \<le> length (files w (fname f))"
    then have "length (take bufSize (drop (pos f) (files w (fname f)))) = bufSize"
      by simp
    moreover from this have "take bufSize (drop (pos f) (files w (fname f))) \<noteq> []"
      by (auto simp: bufSize_def)
    ultimately show "readLastState cd r w = Inl (Fatal ''Buffer size too small'')"
      by (simp add: rd Let_def)
  }
qed

theorem readLastState_cases_witness:
  "readLastState sampleCodec 0
     (sampleWorld ((sampleCtrl (sampleState GameStateHalted None 0) [] 0)\<lparr>lastStateFile := None\<rparr>)
        (sampleCtrl (sampleState GameStateHalted None 0) [] 0)) =
     Inl (Fatal ''Could not read from last state file'') \<and>
   readLastState sampleCodec 0
     (sampleWorld (sampleCtrl (sampleState GameStateHalted None 0) [] 0)
        (sampleCtrl (sampleState GameStateHalted None 0) [] 0)) =
     Inr (sampleWorld (sampleCtrl (sampleState GameStateHalted None 0) [] 0)
        (sampleCtrl (sampleState GameStateHalted None 0) [] 0)) \<and>
   readLastState sampleCodec 0
     ((sampleWorld (sampleCtrl (sampleState GameStateHalted None 0) [] 0)
        (sampleCtrl (sampleState GameStateHalted None 0) [] 0))
          \<lparr>files := (\<lambda>n. replicate 10000 CHR ''x'')\<rparr>) =
     Inl (Fatal ''Buffer size too small'') \<and>
   readLastState sampleCodec 0
     ((sampleWorld (sampleCtrl (sampleState GameStateHalted None 0) [] 0)
        (sampleCtrl (sampleState GameStateHalted None 0) [] 0))
          \<lparr>files := (\<lambda>n. ''garbage'')\<rparr>) =
     Inl (Fatal ''Could not read last state'') \<and>
   (\<exists>w'. readLastState sampleCodec 0
     ((sampleWorld (sampleCtrl (sampleState GameStateHalted None 0) [] 0)
        (sampleCtrl (sampleState GameStateHalted None 0) [] 0))
          \<lparr>heap := freshHeap, files := (\<lambda>n. sampleSnapshot)\<rparr>) = Inr w' \<and>
      heap w' 0 = sampleHeap 0 \<and> heap w' 1 = sampleHeap 1 \<and>
      State (ctrls w' 0) = sampleState GameStateRunning None 600000000000 \<and>
      lastStateFile (ctrls w' 0) = Some \<lparr>fname = ''logs/lastState.json'', pos = 707\<rparr>)"
proof -
  define c0 where "c0 = sampleCtrl (sampleState GameStateHalted None 0) [] 0"
  define f0 where "f0 = \<lparr>fname = ''logs/lastState.json'', pos = 0\<rparr>"
  define u0 where "u0 = sampleWorld (c0\<lparr>lastStateFile := None\<rparr>) c0"
  define u1 where "u1 = sampleWorld c0 c0"
  define u2 where "u2 = u1\<lparr>files := (\<lambda>n. replicate 10000 CHR ''x'')\<rparr>"
  define u3 where "u3 = u1\<lparr>files := (\<lambda>n. ''garbage'')\<rparr>"
  define u4 where "u4 = u1\<lparr>heap := freshHeap, files := (\<lambda>n. sampleSnapshot)\<rparr>"
  note defs = u0_def u1_def u2_def u3_def u4_def c0_def f0_def sampleWorld_def sampleCtrl_def
    noFaults_def
  have n0: "lastStateFile (ctrls u0 0) = None" by (simp add: defs)
  have hd: "lastStateFile (ctrls u1 0) = Some f0" "lastStateFile (ctrls u2 0) = Some f0"
    "lastStateFile (ctrls u3 0) = Some f0" "lastStateFile (ctrls u4 0) = Some f0"
    and nf: "\<not> readFails (faults u1)" "\<not> readFails (faults u2)" "\<not> readFails (faults u3)"
      "\<not> readFails (faults u4)"
    and fl: "files u1 (fname f0) = []" "files u2 (fname f0) = replicate 10000 CHR ''x''"
      "files u3 (fname f0) = ''garbage''" "files u4 (fname f0) = sampleSnapshot"
    and p0: "pos f0 = 0"
    and st: "State (ctrls u3 (RefBox u3)) = sampleState GameStateHalted None 0"
      "State (ctrls u4 (RefBox u4)) = sampleState GameStateHalted None 0"
      "heap u4 = freshHeap" "RefBox u4 = 0"
      "State (ctrls u4 0) = sampleState GameStateHalted None 0"
    by (simp_all add: defs)
  note T = conjunct1 [OF conjunct2, OF readLastState_cases, rule_format]
  have a: "readLastState sampleCodec 0 u0 = Inl (Fatal ''Could not read from last state file'')"
    using n0 by (intro conjunct1 [OF readLastState_cases, rule_format]) simp
  have b: "readLastState sampleCodec 0 u1 = Inr u1"
    using T [of u1 0 f0 "take bufSize (drop (pos f0) (files u1 (fname f0)))" sampleCodec]
      hd(1) nf(1) fl(1) p0 by simp
  have "bufSize \<le> length (files u2 (fname f0))" by (simp add: fl bufSize_def)
  then have c: "readLastState sampleCodec 0 u2 = Inl (Fatal ''Buffer size too small'')"
    using T [of u2 0 f0 "take bufSize (drop (pos f0) (files u2 (fname f0)))" sampleCodec]
      hd(2) nf(2) p0 by simp
  have g: "take bufSize (drop (pos f0) (files u3 (fname f0))) = ''garbage''"
    by (simp add: fl p0 bufSize_def)
  have "json_Unmarshal sampleCodec ''garbage'' (heap u3) (State (ctrls u3 (RefBox u3))) = None"
    by (simp add: sampleCodec_def sampleDecode_def decGameState_def)
  then have d: "readLastState sampleCodec 0 u3 = Inl (Fatal ''Could not read last state'')"
    using T [of u3 0 f0 "''garbage''" sampleCodec] hd(3) nf(3)
    by (simp add: bufSize_def fl(3) p0)
  from sampleSnapshot_decodes obtain h where
    h: "sampleDecode sampleSnapshot freshHeap (sampleState GameStateHalted None 0) =
          Some (h, sampleState GameStateRunning None 600000000000)"
       "h 0 = sampleHeap 0" "h 1 = sampleHeap 1"
    by blast
  have s: "take bufSize (drop (pos f0) (files u4 (fname f0))) = sampleSnapshot"
    using sampleSnapshot_decodes by (simp add: fl p0 bufSize_def)
  have "json_Unmarshal sampleCodec sampleSnapshot (heap u4) (State (ctrls u4 (RefBox u4))) =
      Some (h, sampleState GameStateRunning None 600000000000)"
    using h(1) by (simp add: sampleCodec_def st)
  then have "\<exists>w'. readLastState sampleCodec 0 u4 = Inr w' \<and> heap w' = h \<and>
      State (ctrls w' (RefBox u4)) = sampleState GameStateRunning None 600000000000 \<and>
      lastStateFile (ctrls w' 0) = Some (f0\<lparr>pos := pos f0 + length sampleSnapshot\<rparr>)"
    using T [of u4 0 f0 sampleSnapshot sampleCodec] hd(4) nf(4) sampleSnapshot_decodes
    by (simp add: bufSize_def fl(4) p0) blast
  then have "\<exists>w'. readLastState sampleCodec 0 u4 = Inr w' \<and>
      heap w' 0 = sampleHeap 0 \<and> heap w' 1 = sampleHeap 1 \<and>
      State (ctrls w' 0) = sampleState GameStateRunning None 600000000000 \<and>
      lastStateFile (ctrls w' 0) = Some \<lparr>fname = ''logs/lastState.json'', pos = 707\<rparr>"
    using h(2,3) sampleSnapshot_decodes by (auto simp: st p0 f0_def)
  with a b c d show ?thesis unfolding u0_def u1_def u2_def u3_def u4_def c0_def by blast
qed

text \<open>
  Claim C8, as amended. Let \<^verbatim>\<open>SaveLatestState\<close> return on a state, its write having gone
  through, and let the snapshot written be shorter than the buffer of 10000 bytes. Then the
  snapshot file holds exactly the encoding of the state, and in any world where the file
  has this content (the same process, or the next one), \<^verbatim>\<open>readLastState\<close> on a handle at
  offset 0 returns, and the State of the singleton is then equal, field for field and
  TeamInfo for TeamInfo, to the State in memory at the time of the save, whatever the
  State and the store were before the read. The codec is \<open>snapCodec\<close>, whose decoder
  undoes its encoder on every state.
\<close>

theorem SaveLatestState_readLastState_roundtrip:
  assumes "SaveLatestState snapCodec r w = Inr w1"
    and "\<not> writeAtFails (faults w)"
    and "lastStateFile (ctrls w r) = Some f"
    and "files w2 (fname f) = files w1 (fname f)"
    and "lastStateFile (ctrls w2 r2) = Some \<lparr>fname = fname f, pos = 0\<rparr>"
    and "\<not> readFails (faults w2)"
    and "length (files w1 (fname f)) < bufSize"
  shows "snapEncode (heap w) (State (ctrls w r)) = Some (files w1 (fname f)) \<and>
    (\<exists>w3. readLastState snapCodec r2 w2 = Inr w3 \<and> RefBox w3 = RefBox w2 \<and>
          deepState (heap w3) (State (ctrls w3 (RefBox w3))) =
            deepState (heap w) (State (ctrls w r)))"
proof -
  obtain bs where enc: "snapEncode (heap w) (State (ctrls w r)) = Some bs"
    by (simp add: snapEncode_def)
  then have m: "json_MarshalIndent snapCodec (heap w) (State (ctrls w r)) = Some bs"
    by (simp add: snapCodec_def)
  have fl: "files w1 (fname f) = bs"
    using assms(1) m assms(2,3) by (rule SaveLatestState_file)
  from enc have ne: "bs \<noteq> []" by (rule snapEncode_nonempty)
  from assms(7) fl have small: "length bs < bufSize" by simp
  then have "length bs < 2 ^ 64" by (simp add: bufSize_def)
  from snapDecode_snapEncode [OF enc this, of "heap w2" "State (ctrls w2 (RefBox w2))"]
  obtain h1 s1 where dec: "snapDecode bs (heap w2) (State (ctrls w2 (RefBox w2))) = Some (h1, s1)"
    and deep: "deepState h1 s1 = deepState (heap w) (State (ctrls w r))"
    by blast
  let ?f = "\<lparr>fname = fname f, pos = 0\<rparr>"
  have b: "take bufSize (drop (pos ?f) (files w2 (fname ?f))) = bs"
    using assms(4) small fl by simp
  note rd = readLastState_read [OF assms(5,6), of snapCodec, unfolded b Let_def]
  from dec have "json_Unmarshal snapCodec bs (heap w2) (State (ctrls w2 (RefBox w2))) = Some (h1, s1)"
    by (simp add: snapCodec_def)
  with ne small deep
  have "\<exists>w3. readLastState snapCodec r2 w2 = Inr w3 \<and> RefBox w3 = RefBox w2 \<and>
          deepState (heap w3) (State (ctrls w3 (RefBox w3))) =
            deepState (heap w) (State (ctrls w r))"
    by (simp add: rd setCtrl_def)
  with enc fl show ?thesis by simp
qed

theorem SaveLatestState_readLastState_roundtrip_witness:
  "\<exists>w1 w3.
     SaveLatestState snapCodec 0
       (sampleWorld (sampleCtrl (sampleState GameStateRunning None 600000000000) [] 0)
          (sampleCtrl (sampleState GameStateHalted None 0) [] 0)) = Inr w1 \<and>
     length (files w1 ''logs/lastState.json'') = 910 \<and>
     readLastState snapCodec 0
       ((sampleWorld (sampleCtrl (sampleState GameStateHalted None 0) [] 0)
          (sampleCtrl (sampleState GameStateHalted None 0) [] 0))
            \<lparr>heap := freshHeap, files := files w1\<rparr>) = Inr w3 \<and>
     deepState (heap w3) (State (ctrls w3 0)) =
       deepState sampleHeap (sampleState GameStateRunning None 600000000000)"
proof -
  define s where "s = sampleState GameStateRunning None 600000000000"
  define t where "t = sampleState GameStateHalted None 0"
  define u where "u = sampleWorld (sampleCtrl s [] 0) (sampleCtrl t [] 0)"
  define f0 where "f0 = \<lparr>fname = ''logs/lastState.json'', pos = 0\<rparr>"
  obtain bs where enc: "snapEncode sampleHeap s = Some bs"
    by (simp add: snapEncode_def)
  have sf: "TeamState s = [(''Yellow'', Some 0), (''Blue'', Some 1)]"
    "GameState s = GameStateRunning" "GameStateFor s = None"
    by (simp_all add: s_def sampleState_def)
  have len: "length bs = 910"
    using length_snapEncode_sample [OF sf enc] by (simp add: sampleHeap_def)
  have v: "json_MarshalIndent snapCodec (heap u) (State (ctrls u 0)) = Some bs"
    "lastStateFile (ctrls u 0) = Some f0" "\<not> truncateFails (faults u)"
    "\<not> writeAtFails (faults u)" "heap u = sampleHeap" "State (ctrls u 0) = s"
    by (simp_all add: u_def f0_def sampleWorld_def sampleCtrl_def noFaults_def snapCodec_def enc)
  obtain w1 where save: "SaveLatestState snapCodec 0 u = Inr w1"
    using SaveLatestState_ok [OF v(1-4)] by blast
  have fl: "files w1 (fname f0) = bs"
    using save v(1,4,2) by (rule SaveLatestState_file)
  define u2 where "u2 = (sampleWorld (sampleCtrl t [] 0) (sampleCtrl t [] 0))
            \<lparr>heap := freshHeap, files := files w1\<rparr>"
  have v2: "files u2 (fname f0) = files w1 (fname f0)"
    "lastStateFile (ctrls u2 0) = Some \<lparr>fname = fname f0, pos = 0\<rparr>"
    "\<not> readFails (faults u2)" "RefBox u2 = 0"
    by (simp_all add: u2_def f0_def sampleWorld_def sampleCtrl_def noFaults_def)
  have small: "length (files w1 (fname f0)) < bufSize"
    by (simp add: fl len bufSize_def)
  from SaveLatestState_readLastState_roundtrip [OF save v(4) v(2) v2(1) v2(2) v2(3) small]
  obtain w3 where "readLastState snapCodec 0 u2 = Inr w3" "RefBox w3 = RefBox u2"
    "deepState (heap w3) (State (ctrls w3 (RefBox w3))) = deepState (heap u) (State (ctrls u 0))"
    by blast
  then have "readLastState snapCodec 0 u2 = Inr w3 \<and>
      deepState (heap w3) (State (ctrls w3 0)) = deepState sampleHeap s"
    by (simp add: v2(4) v(5,6))
  moreover from fl len have "length (files w1 ''logs/lastState.json'') = 910"
    by (simp add: f0_def)
  ultimately have "SaveLatestState snapCodec 0 u = Inr w1 \<and>
     length (files w1 ''logs/lastState.json'') = 910 \<and>
     readLastState snapCodec 0 u2 = Inr w3 \<and>
     deepState (heap w3) (State (ctrls w3 0)) = deepState sampleHeap s"
    using save by simp
  then show ?thesis unfolding u2_def u_def s_def t_def by blast
qed

text \<open>
  Claim C8 as stated fails for a state whose encoding fills the buffer: with 10000 yellow
  cards per team \<^verbatim>\<open>SaveLatestState\<close> succeeds and the bytes written decode to the saved
  state, yet \<^verbatim>\<open>readLastState\<close> on the written file is fatal.
\<close>

theorem SaveLatestState_readLastState_counterexample:
  "\<not> isl (SaveLatestState snapCodec 0
       ((sampleWorld (sampleCtrl (sampleState GameStateRunning None 600000000000) [] 0)
           (sampleCtrl (sampleState GameStateHalted None 0) [] 0))\<lparr>heap := crowdedHeap\<rparr>)) \<and>
   map_option (case_prod deepState)
     (snapDecode
       (files (projr (SaveLatestState snapCodec 0
         ((sampleWorld (sampleCtrl (sampleState GameStateRunning None 600000000000) [] 0)
             (sampleCtrl (sampleState GameStateHalted None 0) [] 0))\<lparr>heap := crowdedHeap\<rparr>)))
          ''logs/lastState.json'')
       freshHeap (sampleState GameStateHalted None 0)) =
     Some (deepState crowdedHeap (sampleState GameStateRunning None 600000000000)) \<and>
   readLastState snapCodec 0
     (projr (SaveLatestState snapCodec 0
       ((sampleWorld (sampleCtrl (sampleState GameStateRunning None 600000000000) [] 0)
           (sampleCtrl (sampleState GameStateHalted None 0) [] 0))\<lparr>heap := crowdedHeap\<rparr>))) =
     Inl (Fatal ''Buffer size too small'')"
proof -
  define s where "s = sampleState GameStateRunning None 600000000000"
  define t where "t = sampleState GameStateHalted None 0"
  define u where "u = (sampleWorld (sampleCtrl s [] 0) (sampleCtrl t [] 0))\<lparr>heap := crowdedHeap\<rparr>"
  define f0 where "f0 = \<lparr>fname = ''logs/lastState.json'', pos = 0\<rparr>"
  obtain bs where enc: "snapEncode crowdedHeap s = Some bs"
    by (simp add: snapEncode_def)
  have sf: "TeamState s = [(''Yellow'', Some 0), (''Blue'', Some 1)]"
    "GameState s = GameStateRunning" "GameStateFor s = None"
    by (simp_all add: s_def sampleState_def)
  have len: "length bs = 1280654"
    using length_snapEncode_sample [OF sf enc] by (simp add: crowdedHeap_def)
  then have "length bs < 2 ^ 64" by simp
  from snapDecode_snapEncode [OF enc this, of freshHeap t]
  have dec: "map_option (case_prod deepState) (snapDecode bs freshHeap t) =
      Some (deepState crowdedHeap s)"
    by auto
  have v: "json_MarshalIndent snapCodec (heap u) (State (ctrls u 0)) = Some bs"
    "lastStateFile (ctrls u 0) = Some f0" "\<not> truncateFails (faults u)"
    "\<not> writeAtFails (faults u)" "\<not> readFails (faults u)"
    by (simp_all add: u_def f0_def sampleWorld_def sampleCtrl_def noFaults_def snapCodec_def enc)
  define u1 where "u1 = u\<lparr>files := (files u)(fname f0 := bs),
                  trace := trace u @ [FileTruncate (fname f0), FileWriteAt (fname f0) bs,
                                      FileSync (fname f0)]\<rparr>"
  have save: "SaveLatestState snapCodec 0 u = Inr u1"
    unfolding u1_def by (rule SaveLatestState_ok [OF v(1-4)])
  have v1: "lastStateFile (ctrls u1 0) = Some f0" "\<not> readFails (faults u1)"
    "files u1 (fname f0) = bs" "pos f0 = 0" "fname f0 = ''logs/lastState.json''"
    using v by (simp_all add: u1_def f0_def)
  have "take bufSize (drop (pos f0) (files u1 (fname f0))) \<noteq> []"
    "length (take bufSize (drop (pos f0) (files u1 (fname f0)))) = bufSize"
    using len by (auto simp: v1(3,4) bufSize_def)
  then have "readLastState snapCodec 0 u1 = Inl (Fatal ''Buffer size too small'')"
    by (simp add: readLastState_read [OF v1(1,2)] Let_def)
  with save dec v1(3,5)
  have "\<not> isl (SaveLatestState snapCodec 0 u) \<and>
    map_option (case_prod deepState)
      (snapDecode (files (projr (SaveLatestState snapCodec 0 u)) ''logs/lastState.json'')
         freshHeap t) = Some (deepState crowdedHeap s) \<and>
    readLastState snapCodec 0 (projr (SaveLatestState snapCodec 0 u)) =
      Inl (Fatal ''Buffer size too small'')"
    by simp
  then show ?thesis unfolding u_def s_def t_def .
qed




end
